theory Spec2Isabelle
  imports Complex_Main
begin

section \<open>Numbers, optional values and arrays\<close>

text \<open>
  A TypeScript \<^verbatim>\<open>number\<close> is modelled as a \<^typ>\<open>real\<close>: arithmetic is exact, with one
  exception. Where the source takes \<^verbatim>\<open>Math.floor\<close> of a product (the index of the percentile
  helper, the year and the month of a generated transaction), the floor of the product of
  two doubles can differ by one from the floor of the exact product; there the model
  rounds the quotient and the product as doubles do (below). Elsewhere the rounding of
  IEEE doubles, \<^verbatim>\<open>NaN\<close> and the infinities are outside the model; where the
  source would go on with \<^verbatim>\<open>NaN\<close> because it read \<^verbatim>\<open>undefined\<close> as a number, the
  model stops with the error \<open>NotANumber\<close>. Division is HOL's, so a quotient by zero is \<open>0\<close>
  here and non-finite in the source: statements about a quotient carry the hypothesis that
  the divisor is not zero.

  An optional field (\<^verbatim>\<open>x?: number\<close>) is an \<^typ>\<open>'a option\<close>, \<open>None\<close> being
  \<^verbatim>\<open>undefined\<close>.
\<close>

datatype error = TypeError | NotANumber

text \<open>\<^verbatim>\<open>v ?? d\<close>: the default is taken when \<open>v\<close> is undefined.\<close>

definition nullish :: "'a option \<Rightarrow> 'a \<Rightarrow> 'a" where
  "nullish v d = (case v of None \<Rightarrow> d | Some x \<Rightarrow> x)"

text \<open>\<^verbatim>\<open>v || d\<close> on numbers: the default is taken when \<open>v\<close> is undefined or zero.\<close>

definition falsy_or :: "real option \<Rightarrow> real \<Rightarrow> real" where
  "falsy_or v d = (case v of None \<Rightarrow> d | Some x \<Rightarrow> if x = 0 then d else x)"

text \<open>\<^verbatim>\<open>xs[i]\<close> for an index that is a natural number: undefined out of range.\<close>

definition js_index :: "'a list \<Rightarrow> nat \<Rightarrow> 'a option" where
  "js_index xs i = (if i < length xs then Some (xs ! i) else None)"

text \<open>\<^verbatim>\<open>xs[xs.length - 1]\<close>: undefined on the empty array.\<close>

definition js_last :: "'a list \<Rightarrow> 'a option" where
  "js_last xs = (case xs of [] \<Rightarrow> None | _ \<Rightarrow> Some (last xs))"

text \<open>
  The number of rounds of \<^verbatim>\<open>for (let year = 1; year <= n; year++)\<close> for a number \<open>n\<close>.
\<close>

definition loop_count :: "real \<Rightarrow> nat" where
  "loop_count n = nat \<lfloor>n\<rfloor>"

section \<open>The financial data model (data/types.ts)\<close>

record FinancialStatement =
  date :: string
  revenue :: real
  grossProfit :: real
  operatingIncome :: real
  netIncome :: real
  ebitda :: real
  depreciation :: "real option"
  amortization :: "real option"

record CashFlowStatement =
  cf_date :: string
  operatingCashFlow :: real
  capitalExpenditure :: real
  freeCashFlow :: real
  cf_depreciation :: real
  stockBasedCompensation :: "real option"
  changeInWorkingCapital :: "real option"

record BalanceSheet =
  bs_date :: string
  totalAssets :: real
  totalLiabilities :: real
  totalEquity :: real
  totalDebt :: real
  cashAndEquivalents :: real
  workingCapital :: "real option"

record CompanyProfile =
  symbol :: string
  name :: string
  industry :: string
  sector :: string
  marketCap :: real
  sharesOutstanding :: real
  beta :: "real option"

record StockPrice =
  current :: real
  fiftyTwoWeekHigh :: real
  fiftyTwoWeekLow :: real
  averageVolume :: real

record CompanyData =
  profile :: CompanyProfile
  incomeStatements :: "FinancialStatement list"
  cashFlowStatements :: "CashFlowStatement list"
  balanceSheets :: "BalanceSheet list"
  stockPrice :: StockPrice

text \<open>
  A \<^verbatim>\<open>CompanyData\<close> is an object: the caller and every model built from it hold a
  reference to the same object, and the models keep that reference (\<^verbatim>\<open>this.data = data\<close>)
  without copying. The heap maps a reference to the object's present contents.
\<close>

type_synonym ref = nat

type_synonym heap = "ref \<Rightarrow> CompanyData"

text \<open>
  Writing a field of the last element of a statement array, through a reference to that
  element.
\<close>

definition set_last :: "'a list \<Rightarrow> 'a \<Rightarrow> 'a list" where
  "set_last xs x = (case xs of [] \<Rightarrow> [] | _ \<Rightarrow> butlast xs @ [x])"

section \<open>The revenue growth of a projection year\<close>

text \<open>
  \<^verbatim>\<open>revenueGrowth[year - 1] || revenueGrowth[revenueGrowth.length - 1]\<close>, the expression of
  both the DCF and the three-statement projection loop.
\<close>

definition growthRate :: "real list \<Rightarrow> nat \<Rightarrow> real option" where
  "growthRate rg year =
     (case js_index rg (year - 1) of
        None \<Rightarrow> js_last rg
      | Some g \<Rightarrow> if g = 0 then js_last rg else Some g)"

section \<open>The DCF model (models/dcf.ts)\<close>

record DCFInputs =
  in_projectionYears :: "real option"
  in_revenueGrowth :: "real list option"
  in_terminalGrowth :: "real option"
  in_wacc :: "real option"
  in_taxRate :: "real option"
  in_riskFreeRate :: "real option"
  in_marketRiskPremium :: "real option"
  in_beta :: "real option"

text \<open>\<^verbatim>\<open>Required<DCFInputs>\<close>, the instance's field \<^verbatim>\<open>inputs\<close>.\<close>

record DCFRequired =
  projectionYears :: real
  revenueGrowth :: "real list"
  terminalGrowth :: real
  wacc :: real
  taxRate :: real
  riskFreeRate :: real
  marketRiskPremium :: real
  dcf_beta :: real

record DCFModel =
  data :: ref
  inputs :: DCFRequired

record DCFProjection =
  p_year :: nat
  p_revenue :: real
  p_ebitda :: real
  p_ebit :: real
  p_nopat :: real
  p_dAndA :: real
  p_capex :: real
  p_nwcChange :: real
  p_fcf :: real
  p_discountFactor :: real
  p_presentValue :: real

record DCFAssumptions =
  a_revenueGrowth :: "real list"
  a_ebitdaMargin :: "real list"
  a_taxRate :: real
  a_dAndAPercent :: real
  a_capexPercent :: real
  a_nwcPercent :: real
  a_terminalGrowth :: real
  a_wacc :: real

record DCFValuation =
  assumptions :: DCFAssumptions
  projections :: "DCFProjection list"
  terminalValue :: real
  enterpriseValue :: real
  netDebt :: real
  equityValue :: real
  v_sharesOutstanding :: real
  impliedSharePrice :: real
  currentPrice :: real
  upside :: real

definition defaultGrowth :: "real list" where
  "defaultGrowth = [15 / 100, 12 / 100, 10 / 100, 8 / 100, 6 / 100]"

text \<open>The constructor's local \<^verbatim>\<open>defaultWACC\<close>, from the profile's beta.\<close>

definition defaultWACC :: "CompanyData \<Rightarrow> real" where
  "defaultWACC d =
     (let beta = falsy_or (beta (profile d)) 1;
          riskFreeRate = 4 / 100;
          marketRiskPremium = 5 / 100;
          costOfEquity = riskFreeRate + beta * marketRiskPremium;
          costOfDebt = 4 / 100
      in costOfEquity * (7 / 10) + costOfDebt * (3 / 10) * (1 - 21 / 100))"

text \<open>
  The constructor. It reads the snapshot and keeps the reference; \<^verbatim>\<open>projectionYears\<close> is
  the literal 5 whatever the caller supplied.
\<close>

definition DCFModel_new :: "heap \<Rightarrow> ref \<Rightarrow> DCFInputs \<Rightarrow> DCFModel" where
  "DCFModel_new h r inp =
     \<lparr>data = r,
      inputs = \<lparr>projectionYears = 5,
                revenueGrowth = nullish (in_revenueGrowth inp) defaultGrowth,
                terminalGrowth = nullish (in_terminalGrowth inp) (25 / 1000),
                wacc = nullish (in_wacc inp) (defaultWACC (h r)),
                taxRate = nullish (in_taxRate inp) (21 / 100),
                riskFreeRate = nullish (in_riskFreeRate inp) (4 / 100),
                marketRiskPremium = nullish (in_marketRiskPremium inp) (5 / 100),
                dcf_beta = nullish (in_beta inp) (falsy_or (beta (profile (h r))) 1)\<rparr>\<rparr>"

text \<open>
  One round of the loop of \<^verbatim>\<open>calculateProjections\<close>. The loop's state is the local
  \<^verbatim>\<open>currentRevenue\<close>, the object \<^verbatim>\<open>lastStatement\<close> (the last income statement of the
  snapshot, by reference) and the array built so far.
\<close>

definition projection_step ::
  "DCFRequired \<Rightarrow> nat \<Rightarrow> real \<Rightarrow> real \<Rightarrow> FinancialStatement \<Rightarrow> real \<times> DCFProjection"
where
  "projection_step inp year growth currentRevenue0 lastStatement =
     (let currentRevenue = currentRevenue0 * (1 + growth);
          ebitdaMargin = 30 / 100;
          dAndAPercent = 5 / 100;
          capexPercent = 8 / 100;
          nwcPercent = 3 / 100;
          ebitda = currentRevenue * ebitdaMargin;
          dAndA = currentRevenue * dAndAPercent;
          ebit = ebitda - dAndA;
          nopat = ebit * (1 - taxRate inp);
          capex = currentRevenue * capexPercent;
          nwcChange = (currentRevenue - revenue lastStatement) * nwcPercent;
          fcf = nopat + dAndA - capex - nwcChange;
          discountFactor = (1 + wacc inp) ^ year;
          presentValue = fcf / discountFactor
      in (currentRevenue,
          \<lparr>p_year = year, p_revenue = currentRevenue, p_ebitda = ebitda, p_ebit = ebit,
           p_nopat = nopat, p_dAndA = dAndA, p_capex = capex, p_nwcChange = nwcChange,
           p_fcf = fcf, p_discountFactor = discountFactor,
           p_presentValue = presentValue\<rparr>))"

text \<open>
  The loop, for \<open>n\<close> more rounds from year \<open>year\<close>. Each round ends with
  \<^verbatim>\<open>lastStatement.revenue = currentRevenue\<close>.
\<close>

fun projections_loop ::
  "DCFRequired \<Rightarrow> nat \<Rightarrow> nat \<Rightarrow> real \<Rightarrow> FinancialStatement \<Rightarrow> DCFProjection list
   \<Rightarrow> error + (FinancialStatement \<times> DCFProjection list)"
where
  "projections_loop inp 0 year currentRevenue lastStatement acc = Inr (lastStatement, acc)"
| "projections_loop inp (Suc n) year currentRevenue lastStatement acc =
     (case growthRate (revenueGrowth inp) year of
        None \<Rightarrow> Inl NotANumber
      | Some growth \<Rightarrow>
          (case projection_step inp year growth currentRevenue lastStatement of
             (currentRevenue', p) \<Rightarrow>
               projections_loop inp n (Suc year) currentRevenue'
                 (lastStatement\<lparr>revenue := currentRevenue'\<rparr>) (acc @ [p])))"

text \<open>
  \<^verbatim>\<open>calculateProjections\<close>: the projections and the heap it leaves. The last income
  statement is read by reference, so the loop's writes to it are writes to the snapshot.
  On an empty series \<^verbatim>\<open>lastStatement\<close> is undefined and reading its revenue throws.
\<close>

definition calculateProjections ::
  "DCFModel \<Rightarrow> heap \<Rightarrow> (error + DCFProjection list) \<times> heap"
where
  "calculateProjections m h =
     (let d = h (data m) in
      case js_last (incomeStatements d) of
        None \<Rightarrow> (Inl TypeError, h)
      | Some lastStatement \<Rightarrow>
          (case projections_loop (inputs m) (loop_count (projectionYears (inputs m))) 1
                  (revenue lastStatement) lastStatement [] of
             Inl e \<Rightarrow> (Inl e, h)
           | Inr (lastStatement', ps) \<Rightarrow>
               (Inr ps,
                h(data m := d\<lparr>incomeStatements :=
                                set_last (incomeStatements d) lastStatement'\<rparr>))))"

definition calculateTerminalValue :: "DCFModel \<Rightarrow> DCFProjection list \<Rightarrow> error + real" where
  "calculateTerminalValue m ps =
     (case js_last ps of
        None \<Rightarrow> Inl TypeError
      | Some p \<Rightarrow>
          Inr ((p_fcf p * (1 + terminalGrowth (inputs m)))
               / (wacc (inputs m) - terminalGrowth (inputs m))))"

text \<open>
  \<^verbatim>\<open>projections.reduce((sum, p) => sum + p.presentValue, 0)\<close> is a left fold. The
  exponent \<^verbatim>\<open>projectionYears\<close> is the whole number 5 in every instance the constructor
  builds.
\<close>

definition calculateEnterpriseValue :: "DCFModel \<Rightarrow> DCFProjection list \<Rightarrow> real \<Rightarrow> real" where
  "calculateEnterpriseValue m ps tv =
     (let pvOfProjections = foldl (\<lambda>sum p. sum + p_presentValue p) 0 ps;
          pvOfTerminal = tv / (1 + wacc (inputs m)) ^ loop_count (projectionYears (inputs m))
      in pvOfProjections + pvOfTerminal)"

definition calculateEquityValue :: "DCFModel \<Rightarrow> heap \<Rightarrow> real \<Rightarrow> error + (real \<times> real \<times> real)"
where
  "calculateEquityValue m h ev =
     (let d = h (data m) in
      case js_last (balanceSheets d) of
        None \<Rightarrow> Inl TypeError
      | Some lastBalance \<Rightarrow>
          (let netDebt = totalDebt lastBalance - cashAndEquivalents lastBalance;
               equityValue = ev - netDebt;
               impliedSharePrice = equityValue / sharesOutstanding (profile d);
               currentPrice = current (stockPrice d);
               upside = (impliedSharePrice - currentPrice) / currentPrice
           in Inr (netDebt, impliedSharePrice, upside)))"

text \<open>\<^verbatim>\<open>calculate()\<close>: the valuation, or the exception thrown, and the heap it leaves.\<close>

definition calculate :: "DCFModel \<Rightarrow> heap \<Rightarrow> (error + DCFValuation) \<times> heap" where
  "calculate m h =
     (case calculateProjections m h of
        (Inl e, h') \<Rightarrow> (Inl e, h')
      | (Inr ps, h') \<Rightarrow>
          (case calculateTerminalValue m ps of
             Inl e \<Rightarrow> (Inl e, h')
           | Inr tv \<Rightarrow>
               (let ev = calculateEnterpriseValue m ps tv in
                case calculateEquityValue m h' ev of
                  Inl e \<Rightarrow> (Inl e, h')
                | Inr (nd, price, up) \<Rightarrow>
                    (Inr \<lparr>assumptions =
                            \<lparr>a_revenueGrowth = revenueGrowth (inputs m),
                             a_ebitdaMargin = map (\<lambda>p. p_ebitda p / p_revenue p) ps,
                             a_taxRate = taxRate (inputs m),
                             a_dAndAPercent = 5 / 100,
                             a_capexPercent = 8 / 100,
                             a_nwcPercent = 3 / 100,
                             a_terminalGrowth = terminalGrowth (inputs m),
                             a_wacc = wacc (inputs m)\<rparr>,
                          projections = ps,
                          terminalValue = tv,
                          enterpriseValue = ev,
                          netDebt = nd,
                          equityValue = ev - nd,
                          v_sharesOutstanding = sharesOutstanding (profile (h' (data m))),
                          impliedSharePrice = price,
                          currentPrice = current (stockPrice (h' (data m))),
                          upside = up\<rparr>,
                     h'))))"

text \<open>
  \<^verbatim>\<open>sensitivityAnalysis\<close>: the inner loop over \<^verbatim>\<open>growthRange\<close> and the outer loop over
  \<^verbatim>\<open>waccRange\<close>. Each cell overwrites the instance's \<^verbatim>\<open>wacc\<close> and \<^verbatim>\<open>terminalGrowth\<close> and
  calls \<^verbatim>\<open>calculate()\<close>; an exception leaves the loops at once.
\<close>

fun sensitivity_row ::
  "DCFModel \<Rightarrow> heap \<Rightarrow> real \<Rightarrow> real list \<Rightarrow> real list \<Rightarrow> (error + real list) \<times> DCFModel \<times> heap"
where
  "sensitivity_row m h w [] row = (Inr row, m, h)"
| "sensitivity_row m h w (growth # gs) row =
     (let m' = m\<lparr>inputs := (inputs m)\<lparr>wacc := w, terminalGrowth := growth\<rparr>\<rparr> in
      case calculate m' h of
        (Inl e, h') \<Rightarrow> (Inl e, m', h')
      | (Inr valuation, h') \<Rightarrow>
          sensitivity_row m' h' w gs (row @ [impliedSharePrice valuation]))"

fun sensitivity_rows ::
  "DCFModel \<Rightarrow> heap \<Rightarrow> real list \<Rightarrow> real list \<Rightarrow> real list list
   \<Rightarrow> (error + real list list) \<times> DCFModel \<times> heap"
where
  "sensitivity_rows m h [] growthRange results = (Inr results, m, h)"
| "sensitivity_rows m h (w # ws) growthRange results =
     (case sensitivity_row m h w growthRange [] of
        (Inl e, m', h') \<Rightarrow> (Inl e, m', h')
      | (Inr row, m', h') \<Rightarrow> sensitivity_rows m' h' ws growthRange (results @ [row]))"

definition sensitivityAnalysis ::
  "real list \<Rightarrow> real list \<Rightarrow> DCFModel \<Rightarrow> heap \<Rightarrow> (error + real list list) \<times> DCFModel \<times> heap"
where
  "sensitivityAnalysis waccRange growthRange m h =
     (let originalWACC = wacc (inputs m);
          originalTerminalGrowth = terminalGrowth (inputs m) in
      case sensitivity_rows m h waccRange growthRange [] of
        (Inl e, m', h') \<Rightarrow> (Inl e, m', h')
      | (Inr results, m', h') \<Rightarrow>
          (Inr results,
           m'\<lparr>inputs := (inputs m')\<lparr>wacc := originalWACC,
                                    terminalGrowth := originalTerminalGrowth\<rparr>\<rparr>,
           h'))"

section \<open>The three-statement model (models/three-statement.ts)\<close>

record WorkingCapitalDays =
  ar :: real
  inventory :: real
  ap :: real

record ThreeStatementInputs =
  tin_projectionYears :: "real option"
  tin_revenueGrowth :: "real list option"
  tin_grossMargin :: "real option"
  tin_operatingMargin :: "real option"
  tin_taxRate :: "real option"
  tin_workingCapitalDays :: "WorkingCapitalDays option"

record ThreeStatementRequired =
  ts_projectionYears :: real
  ts_revenueGrowth :: "real list"
  ts_grossMargin :: real
  ts_operatingMargin :: real
  ts_taxRate :: real
  ts_workingCapitalDays :: WorkingCapitalDays

record ThreeStatementModel =
  ts_data :: ref
  ts_inputs :: ThreeStatementRequired

record ProjectedIncome =
  pi_year :: nat
  pi_revenue :: real
  pi_costOfGoodsSold :: real
  pi_grossProfit :: real
  pi_grossMargin :: real
  pi_operatingExpenses :: real
  pi_operatingIncome :: real
  pi_operatingMargin :: real
  pi_interestExpense :: real
  pi_preTaxIncome :: real
  pi_tax :: real
  pi_netIncome :: real
  pi_netMargin :: real

record ProjectedBalance =
  pb_year :: nat
  pb_cash :: real
  pb_accountsReceivable :: real
  pb_inventory :: real
  pb_totalCurrentAssets :: real
  pb_ppe :: real
  pb_totalAssets :: real
  pb_accountsPayable :: real
  pb_totalCurrentLiabilities :: real
  pb_totalDebt :: real
  pb_totalLiabilities :: real
  pb_equity :: real
  pb_totalLiabilitiesAndEquity :: real

record ProjectedCashFlow =
  pc_year :: nat
  pc_netIncome :: real
  pc_depreciation :: real
  pc_changeInWorkingCapital :: real
  pc_operatingCashFlow :: real
  pc_capex :: real
  pc_investingCashFlow :: real
  pc_debtIssuance :: real
  pc_financingCashFlow :: real
  pc_netChangeInCash :: real
  pc_beginningCash :: real
  pc_endingCash :: real

record ThreeStatementResult =
  r_incomeStatements :: "ProjectedIncome list"
  r_balanceSheets :: "ProjectedBalance list"
  r_cashFlowStatements :: "ProjectedCashFlow list"

text \<open>
  The constructor: the defaults, overridden by the fields the caller supplied
  (\<^verbatim>\<open>...inputs\<close>; a field is \<open>None\<close> when the caller's object does not have it).
\<close>

definition ThreeStatementModel_new :: "heap \<Rightarrow> ref \<Rightarrow> ThreeStatementInputs \<Rightarrow> ThreeStatementModel"
where
  "ThreeStatementModel_new h r inp =
     \<lparr>ts_data = r,
      ts_inputs =
        \<lparr>ts_projectionYears = nullish (tin_projectionYears inp) 5,
         ts_revenueGrowth = nullish (tin_revenueGrowth inp) [15 / 100, 12 / 100, 10 / 100, 8 / 100, 6 / 100],
         ts_grossMargin = nullish (tin_grossMargin inp) (40 / 100),
         ts_operatingMargin = nullish (tin_operatingMargin inp) (20 / 100),
         ts_taxRate = nullish (tin_taxRate inp) (21 / 100),
         ts_workingCapitalDays =
           nullish (tin_workingCapitalDays inp) \<lparr>ar = 45, inventory = 60, ap = 30\<rparr>\<rparr>\<rparr>"

text \<open>
  One round of the loop of \<^verbatim>\<open>project()\<close>: the three rows of the year and the ending cash.
\<close>

definition project_step ::
  "ThreeStatementRequired \<Rightarrow> nat \<Rightarrow> real \<Rightarrow> FinancialStatement \<Rightarrow> BalanceSheet
   \<Rightarrow> ProjectedIncome \<times> ProjectedBalance \<times> ProjectedCashFlow"
where
  "project_step inp year growth lastIncome lastBalance =
     (let revenue = revenue lastIncome * (1 + growth);
          cogs = revenue * (1 - ts_grossMargin inp);
          grossProfit = revenue - cogs;
          operatingIncome = revenue * ts_operatingMargin inp;
          operatingExpenses = grossProfit - operatingIncome;
          interestExpense = totalDebt lastBalance * (5 / 100);
          preTaxIncome = operatingIncome - interestExpense;
          tax = preTaxIncome * ts_taxRate inp;
          netIncome = preTaxIncome - tax;
          days = ts_workingCapitalDays inp;
          ar = (revenue / 365) * ar days;
          inventory = (cogs / 365) * inventory days;
          ap = (cogs / 365) * ap days;
          depreciation = totalAssets lastBalance * (5 / 100);
          ppe = totalAssets lastBalance * (4 / 10)
                + (revenue - FinancialStatement.revenue lastIncome) * (3 / 10);
          totalCurrentAssets = cashAndEquivalents lastBalance + ar + inventory;
          totalAssets = totalCurrentAssets + ppe;
          totalCurrentLiabilities = ap + revenue * (1 / 10);
          totalDebt = totalDebt lastBalance;
          totalLiabilities = totalCurrentLiabilities + totalDebt;
          equity = totalAssets - totalLiabilities;
          changeInWC =
            (ar - (FinancialStatement.revenue lastIncome / 365) * WorkingCapitalDays.ar days)
            + (inventory
               - (FinancialStatement.revenue lastIncome * (6 / 10) / 365)
                 * WorkingCapitalDays.inventory days)
            - (ap
               - (FinancialStatement.revenue lastIncome * (6 / 10) / 365)
                 * WorkingCapitalDays.ap days);
          operatingCF = netIncome + depreciation - changeInWC;
          capex = ppe - BalanceSheet.totalAssets lastBalance * (4 / 10) + depreciation;
          investingCF = - capex;
          debtIssuance = 0;
          financingCF = debtIssuance;
          netChangeInCash = operatingCF + investingCF + financingCF;
          endingCash = cashAndEquivalents lastBalance + netChangeInCash
      in (\<lparr>pi_year = year, pi_revenue = revenue, pi_costOfGoodsSold = cogs,
           pi_grossProfit = grossProfit, pi_grossMargin = grossProfit / revenue,
           pi_operatingExpenses = operatingExpenses, pi_operatingIncome = operatingIncome,
           pi_operatingMargin = operatingIncome / revenue,
           pi_interestExpense = interestExpense, pi_preTaxIncome = preTaxIncome,
           pi_tax = tax, pi_netIncome = netIncome, pi_netMargin = netIncome / revenue\<rparr>,
          \<lparr>pb_year = year, pb_cash = cashAndEquivalents lastBalance,
           pb_accountsReceivable = ar, pb_inventory = inventory,
           pb_totalCurrentAssets = totalCurrentAssets, pb_ppe = ppe,
           pb_totalAssets = totalAssets, pb_accountsPayable = ap,
           pb_totalCurrentLiabilities = totalCurrentLiabilities, pb_totalDebt = totalDebt,
           pb_totalLiabilities = totalLiabilities, pb_equity = equity,
           pb_totalLiabilitiesAndEquity = totalLiabilities + equity\<rparr>,
          \<lparr>pc_year = year, pc_netIncome = netIncome, pc_depreciation = depreciation,
           pc_changeInWorkingCapital = changeInWC, pc_operatingCashFlow = operatingCF,
           pc_capex = capex, pc_investingCashFlow = investingCF,
           pc_debtIssuance = debtIssuance, pc_financingCashFlow = financingCF,
           pc_netChangeInCash = netChangeInCash,
           pc_beginningCash = cashAndEquivalents lastBalance,
           pc_endingCash = endingCash\<rparr>))"

text \<open>
  The loop, for \<open>n\<close> more rounds from year \<open>year\<close>. \<^verbatim>\<open>lastIncome\<close> is a local that the round
  replaces by a fresh object (\<^verbatim>\<open>{ ...lastIncome, revenue, netIncome }\<close>); \<^verbatim>\<open>lastBalance\<close> is
  the snapshot's last balance sheet, by reference, and the round writes its
  \<^verbatim>\<open>cashAndEquivalents\<close>. Either is undefined when its series is empty, and reading a field
  of it throws.
\<close>

fun project_loop ::
  "ThreeStatementRequired \<Rightarrow> nat \<Rightarrow> nat \<Rightarrow> FinancialStatement option \<Rightarrow> BalanceSheet option
   \<Rightarrow> ThreeStatementResult \<Rightarrow> error + (BalanceSheet option \<times> ThreeStatementResult)"
where
  "project_loop inp 0 year lastIncome lastBalance res = Inr (lastBalance, res)"
| "project_loop inp (Suc n) year lastIncome lastBalance res =
     (case lastIncome of
        None \<Rightarrow> Inl TypeError
      | Some li \<Rightarrow>
          (case lastBalance of
             None \<Rightarrow> Inl TypeError
           | Some lb \<Rightarrow>
               (case growthRate (ts_revenueGrowth inp) year of
                  None \<Rightarrow> Inl NotANumber
                | Some growth \<Rightarrow>
                    (case project_step inp year growth li lb of
                       (i, b, c) \<Rightarrow>
                         project_loop inp n (Suc year)
                           (Some (li\<lparr>revenue := pi_revenue i, netIncome := pi_netIncome i\<rparr>))
                           (Some (lb\<lparr>cashAndEquivalents := pc_endingCash c\<rparr>))
                           \<lparr>r_incomeStatements = r_incomeStatements res @ [i],
                            r_balanceSheets = r_balanceSheets res @ [b],
                            r_cashFlowStatements = r_cashFlowStatements res @ [c]\<rparr>))))"

text \<open>\<^verbatim>\<open>project()\<close>: the result, or the exception thrown, and the heap it leaves.\<close>

definition project :: "ThreeStatementModel \<Rightarrow> heap \<Rightarrow> (error + ThreeStatementResult) \<times> heap" where
  "project m h =
     (let d = h (ts_data m) in
      case project_loop (ts_inputs m) (loop_count (ts_projectionYears (ts_inputs m))) 1
             (js_last (incomeStatements d)) (js_last (balanceSheets d))
             \<lparr>r_incomeStatements = [], r_balanceSheets = [], r_cashFlowStatements = []\<rparr> of
        Inl e \<Rightarrow> (Inl e, h)
      | Inr (lastBalance, res) \<Rightarrow>
          (Inr res,
           case lastBalance of
             None \<Rightarrow> h
           | Some lb \<Rightarrow> h(ts_data m := d\<lparr>balanceSheets := set_last (balanceSheets d) lb\<rparr>)))"

section \<open>The LBO model (models/lbo.ts)\<close>

record LBOInputs =
  lin_purchasePrice :: "real option"
  lin_premium :: "real option"
  lin_debtRatio :: "real option"
  lin_equityRatio :: "real option"
  lin_interestRate :: "real option"
  lin_exitMultiple :: "real option"
  lin_holdingPeriod :: "real option"
  lin_revenueGrowth :: "real option"
  lin_ebitdaMargin :: "real option"

record LBORequired =
  purchasePrice :: real
  premium :: real
  debtRatio :: real
  equityRatio :: real
  interestRate :: real
  exitMultiple :: real
  holdingPeriod :: real
  lbo_revenueGrowth :: real
  ebitdaMargin :: real

record LBOModel =
  lbo_data :: ref
  lbo_inputs :: LBORequired

record LBOEntry =
  e_purchasePrice :: real
  e_premium :: real
  e_enterpriseValue :: real
  e_equityValue :: real
  debtFinancing :: real
  equityContribution :: real

record LBODebt =
  seniorDebt :: real
  mezzanineDebt :: real
  d_totalDebt :: real
  d_interestRate :: real
  annualInterest :: real

record LBOProjection =
  l_year :: nat
  l_revenue :: real
  l_ebitda :: real
  l_ebit :: real
  l_interest :: real
  l_netIncome :: real
  l_freeCashFlow :: real
  debtRepayment :: real
  endingDebt :: real

record LBOExit =
  exitYear :: real
  exitEBITDA :: real
  x_exitMultiple :: real
  exitEV :: real
  x_netDebt :: real
  x_equityValue :: real

text \<open>
  \<^verbatim>\<open>irr\<close> is \<open>None\<close> where \<^verbatim>\<open>Math.pow\<close> of a negative base and a fractional exponent is
  \<^verbatim>\<open>NaN\<close>.
\<close>

record LBOReturns =
  irr :: "real option"
  moic :: real
  lr_grossProfit :: real

record LBOResult =
  lbo_entry :: LBOEntry
  lbo_debt :: LBODebt
  lbo_projections :: "LBOProjection list"
  lbo_exit :: LBOExit
  lbo_returns :: LBOReturns

definition getNetDebt :: "ref \<Rightarrow> heap \<Rightarrow> error + real" where
  "getNetDebt r h =
     (case js_last (balanceSheets (h r)) of
        None \<Rightarrow> Inl TypeError
      | Some lastBalance \<Rightarrow> Inr (totalDebt lastBalance - cashAndEquivalents lastBalance))"

text \<open>
  The constructor calls \<^verbatim>\<open>getNetDebt()\<close> for a local it does not use, so it throws on an
  empty balance sheet series.
\<close>

definition LBOModel_new :: "heap \<Rightarrow> ref \<Rightarrow> LBOInputs \<Rightarrow> error + LBOModel" where
  "LBOModel_new h r inp =
     (case getNetDebt r h of
        Inl e \<Rightarrow> Inl e
      | Inr nd \<Rightarrow>
          Inr \<lparr>lbo_data = r,
               lbo_inputs =
                 \<lparr>purchasePrice =
                    nullish (lin_purchasePrice inp) (current (stockPrice (h r)) * (13 / 10)),
                  premium = nullish (lin_premium inp) (30 / 100),
                  debtRatio = nullish (lin_debtRatio inp) (60 / 100),
                  equityRatio = nullish (lin_equityRatio inp) (40 / 100),
                  interestRate = nullish (lin_interestRate inp) (8 / 100),
                  exitMultiple = nullish (lin_exitMultiple inp) 10,
                  holdingPeriod = nullish (lin_holdingPeriod inp) 5,
                  lbo_revenueGrowth = nullish (lin_revenueGrowth inp) (8 / 100),
                  ebitdaMargin = nullish (lin_ebitdaMargin inp) (25 / 100)\<rparr>\<rparr>)"

definition calculateEntry :: "LBOModel \<Rightarrow> heap \<Rightarrow> error + LBOEntry" where
  "calculateEntry m h =
     (let inp = lbo_inputs m;
          sharesOutstanding = sharesOutstanding (profile (h (lbo_data m)));
          equityValue = purchasePrice inp * sharesOutstanding
      in case getNetDebt (lbo_data m) h of
           Inl e \<Rightarrow> Inl e
         | Inr nd \<Rightarrow>
             (let enterpriseValue = equityValue + nd
              in Inr \<lparr>e_purchasePrice = purchasePrice inp, e_premium = premium inp,
                      e_enterpriseValue = enterpriseValue, e_equityValue = equityValue,
                      debtFinancing = enterpriseValue * debtRatio inp,
                      equityContribution = enterpriseValue * equityRatio inp\<rparr>))"

definition calculateDebtStructure :: "LBOModel \<Rightarrow> LBOEntry \<Rightarrow> LBODebt" where
  "calculateDebtStructure m entry =
     (let seniorDebt = debtFinancing entry * (7 / 10);
          mezzanineDebt = debtFinancing entry * (3 / 10);
          totalDebt = seniorDebt + mezzanineDebt
      in \<lparr>seniorDebt = seniorDebt, mezzanineDebt = mezzanineDebt, d_totalDebt = totalDebt,
          d_interestRate = interestRate (lbo_inputs m),
          annualInterest = totalDebt * interestRate (lbo_inputs m)\<rparr>)"

text \<open>
  One round of the loop of the LBO's \<^verbatim>\<open>calculateProjections\<close>, with the cash sweep;
  \<open>revenue0\<close> and \<open>endingDebt0\<close> are the locals \<^verbatim>\<open>revenue\<close> and \<^verbatim>\<open>endingDebt\<close> as the round
  finds them.
\<close>

definition lbo_step :: "LBORequired \<Rightarrow> nat \<Rightarrow> real \<Rightarrow> real \<Rightarrow> LBOProjection" where
  "lbo_step inp year revenue0 endingDebt0 =
     (let revenue = revenue0 * (1 + lbo_revenueGrowth inp);
          ebitda = revenue * ebitdaMargin inp;
          dAndA = revenue * (5 / 100);
          ebit = ebitda - dAndA;
          interest = endingDebt0 * interestRate inp;
          netIncome = (ebit - interest) * (1 - 21 / 100);
          capex = revenue * (5 / 100);
          nwcChange = revenue * (2 / 100);
          freeCashFlow = netIncome + dAndA - capex - nwcChange;
          debtRepayment = min freeCashFlow endingDebt0;
          endingDebt = endingDebt0 - debtRepayment
      in \<lparr>l_year = year, l_revenue = revenue, l_ebitda = ebitda, l_ebit = ebit,
          l_interest = interest, l_netIncome = netIncome, l_freeCashFlow = freeCashFlow,
          debtRepayment = debtRepayment, endingDebt = endingDebt\<rparr>)"

fun lbo_loop :: "LBORequired \<Rightarrow> nat \<Rightarrow> nat \<Rightarrow> real \<Rightarrow> real \<Rightarrow> LBOProjection list \<Rightarrow> LBOProjection list"
where
  "lbo_loop inp 0 year revenue0 endingDebt0 acc = acc"
| "lbo_loop inp (Suc n) year revenue0 endingDebt0 acc =
     (let p = lbo_step inp year revenue0 endingDebt0
      in lbo_loop inp n (Suc year) (l_revenue p) (endingDebt p) (acc @ [p]))"

definition lbo_calculateProjections ::
  "LBOModel \<Rightarrow> heap \<Rightarrow> LBOEntry \<Rightarrow> LBODebt \<Rightarrow> error + LBOProjection list"
where
  "lbo_calculateProjections m h entry debt =
     (case js_last (incomeStatements (h (lbo_data m))) of
        None \<Rightarrow> Inl TypeError
      | Some lastIncome \<Rightarrow>
          Inr (lbo_loop (lbo_inputs m) (loop_count (holdingPeriod (lbo_inputs m))) 1
                 (revenue lastIncome) (d_totalDebt debt) []))"

definition calculateExit :: "LBOModel \<Rightarrow> LBOProjection option \<Rightarrow> error + LBOExit" where
  "calculateExit m finalProjection =
     (case finalProjection of
        None \<Rightarrow> Inl TypeError
      | Some p \<Rightarrow>
          (let exitEBITDA = l_ebitda p;
               exitEV = exitEBITDA * exitMultiple (lbo_inputs m);
               netDebt = endingDebt p
           in Inr \<lparr>exitYear = holdingPeriod (lbo_inputs m), exitEBITDA = exitEBITDA,
                   x_exitMultiple = exitMultiple (lbo_inputs m), exitEV = exitEV,
                   x_netDebt = netDebt, x_equityValue = exitEV - netDebt\<rparr>))"

definition calculateReturns :: "LBOModel \<Rightarrow> LBOEntry \<Rightarrow> LBOExit \<Rightarrow> LBOReturns" where
  "calculateReturns m entry exit =
     (let equityInvested = equityContribution entry;
          equityReturned = x_equityValue exit;
          moic = equityReturned / equityInvested;
          years = holdingPeriod (lbo_inputs m)
      in \<lparr>irr = (if 0 \<le> moic then Some (moic powr (1 / years) - 1)
                 else if years = 1 then Some (moic - 1)
                 else None),
          moic = moic,
          lr_grossProfit = equityReturned - equityInvested\<rparr>)"

definition lbo_calculate :: "LBOModel \<Rightarrow> heap \<Rightarrow> error + LBOResult" where
  "lbo_calculate m h =
     (case calculateEntry m h of
        Inl e \<Rightarrow> Inl e
      | Inr entry \<Rightarrow>
          (let debt = calculateDebtStructure m entry in
           case lbo_calculateProjections m h entry debt of
             Inl e \<Rightarrow> Inl e
           | Inr ps \<Rightarrow>
               (case calculateExit m (js_last ps) of
                  Inl e \<Rightarrow> Inl e
                | Inr exit \<Rightarrow>
                    Inr \<lparr>lbo_entry = entry, lbo_debt = debt, lbo_projections = ps,
                         lbo_exit = exit, lbo_returns = calculateReturns m entry exit\<rparr>)))"

section \<open>Rounding to a double\<close>

text \<open>
  A double has a significand of 53 bits. A number \<open>x\<close> that is not zero, with
  \<open>2 ^ e \<le> |x| < 2 ^ (e + 1)\<close>, is rounded to the nearest multiple of \<open>2 ^ (e - 52)\<close>, a
  tie going to the even multiple. Numbers too small or too large for a normal double
  (below \<open>2 ^ -1022\<close> or from \<open>2 ^ 1024\<close> on) are outside the model.
\<close>

definition pow2 :: "int \<Rightarrow> real" where
  "pow2 k = (if 0 \<le> k then 2 ^ nat k else 1 / 2 ^ nat (- k))"

definition round_half_even :: "real \<Rightarrow> int" where
  "round_half_even x =
     (let f = \<lfloor>x\<rfloor>; d = x - of_int f
      in if d < 1 / 2 then f else if 1 / 2 < d then f + 1 else if even f then f else f + 1)"

definition double_round :: "real \<Rightarrow> real" where
  "double_round x =
     (if x = 0 then 0
      else (let e = \<lfloor>log 2 \<bar>x\<bar>\<rfloor>; ulp = pow2 (e - 52)
            in of_int (round_half_even (x / ulp)) * ulp))"

section \<open>The percentile helper (models/comps.ts, models/precedent.ts)\<close>

text \<open>
  \<^verbatim>\<open>[...values].sort((a, b) => a - b)\<close> sorts the numbers in ascending order;
  \<^verbatim>\<open>sorted[index]\<close> is undefined when the index is negative or past the end. The index is
  \<^verbatim>\<open>Math.floor((percentile / 100) * (sorted.length - 1))\<close>: the quotient is rounded to a
  double, and so is its product with the whole number \<^verbatim>\<open>sorted.length - 1\<close>. The two
  classes have the same private method, word for word.
\<close>

definition comps_calculatePercentile :: "real list \<Rightarrow> real \<Rightarrow> real option" where
  "comps_calculatePercentile values percentile =
     (let sorted = sort values;
          index = \<lfloor>double_round (double_round (percentile / 100)
                                  * (real (length sorted) - 1))\<rfloor>
      in if 0 \<le> index \<and> index < int (length sorted) then Some (sorted ! nat index) else None)"

definition precedent_calculatePercentile :: "real list \<Rightarrow> real \<Rightarrow> real option" where
  "precedent_calculatePercentile values percentile =
     (let sorted = sort values;
          index = \<lfloor>double_round (double_round (percentile / 100)
                                  * (real (length sorted) - 1))\<rfloor>
      in if 0 \<le> index \<and> index < int (length sorted) then Some (sorted ! nat index) else None)"

section \<open>The M&A model (models/ma.ts)\<close>

record Synergies =
  cost :: real
  sy_revenue :: real


record MARequired =
  targetSymbol :: string
  targetPrice :: real
  ma_premium :: real
  cashPercent :: real
  stockPercent :: real
  debtPercent :: real
  ma_interestRate :: real
  synergies :: Synergies

record MAModel =
  acquirer :: ref
  target :: ref
  ma_inputs :: MARequired

record MADeal =
  deal_targetPrice :: real
  deal_premium :: real
  offerPrice :: real
  totalConsideration :: real
  cashComponent :: real
  stockComponent :: real
  debtComponent :: real
  sharesIssued :: real

record MAProForma =
  pf_revenue :: real
  pf_ebitda :: real
  pf_ebit :: real
  pf_interestExpense :: real
  pf_netIncome :: real
  pf_sharesOutstanding :: real
  pf_eps :: real

record MAStandalone =
  sa_netIncome :: real
  sa_sharesOutstanding :: real
  sa_eps :: real

record MAAccretionDilution =
  epsImpact :: real
  percentChange :: real
  isAccretive :: bool

record MASynergies =
  costSynergies :: real
  revenueSynergies :: real
  totalPretax :: real
  afterTax :: real
  epsAccretion :: real

record MACreditMetrics =
  preDebtEbitda :: real
  postDebtEbitda :: real
  leveragePre :: real
  leveragePost :: real

record MABreakEven =
  requiredSynergies :: real
  requiredPremium :: real

record MAResult =
  deal :: MADeal
  proForma :: MAProForma
  acquirerStandalone :: MAStandalone
  accretionDilution :: MAAccretionDilution
  ma_synergies :: MASynergies
  creditMetrics :: MACreditMetrics
  breakEven :: MABreakEven


definition calculateDeal :: "MAModel \<Rightarrow> heap \<Rightarrow> MADeal" where
  "calculateDeal m h =
     (let inp = ma_inputs m;
          offerPrice = targetPrice inp * (1 + ma_premium inp);
          totalConsideration = offerPrice * sharesOutstanding (profile (h (target m)));
          cashComponent = totalConsideration * cashPercent inp;
          stockComponent = totalConsideration * stockPercent inp;
          debtComponent = totalConsideration * debtPercent inp;
          acquirerPrice = current (stockPrice (h (acquirer m)));
          sharesIssued = stockComponent / acquirerPrice
      in \<lparr>deal_targetPrice = targetPrice inp, deal_premium = ma_premium inp,
          offerPrice = offerPrice, totalConsideration = totalConsideration,
          cashComponent = cashComponent, stockComponent = stockComponent,
          debtComponent = debtComponent, sharesIssued = sharesIssued\<rparr>)"

definition getAcquirerStandalone :: "MAModel \<Rightarrow> heap \<Rightarrow> error + MAStandalone" where
  "getAcquirerStandalone m h =
     (case js_last (incomeStatements (h (acquirer m))) of
        None \<Rightarrow> Inl TypeError
      | Some lastIncome \<Rightarrow>
          Inr \<lparr>sa_netIncome = netIncome lastIncome,
               sa_sharesOutstanding = sharesOutstanding (profile (h (acquirer m))),
               sa_eps = netIncome lastIncome / sharesOutstanding (profile (h (acquirer m)))\<rparr>)"

definition calculateProForma :: "MAModel \<Rightarrow> heap \<Rightarrow> MADeal \<Rightarrow> error + MAProForma" where
  "calculateProForma m h dl =
     (case js_last (incomeStatements (h (acquirer m))) of
        None \<Rightarrow> Inl TypeError
      | Some acquirerIncome \<Rightarrow>
          (case js_last (incomeStatements (h (target m))) of
             None \<Rightarrow> Inl TypeError
           | Some targetIncome \<Rightarrow>
               (let revenue = revenue acquirerIncome + revenue targetIncome;
                    ebitda = ebitda acquirerIncome + ebitda targetIncome;
                    ebit = operatingIncome acquirerIncome + operatingIncome targetIncome;
                    additionalInterest = debtComponent dl * ma_interestRate (ma_inputs m);
                    interestExpense =
                      (FinancialStatement.ebitda acquirerIncome - operatingIncome acquirerIncome)
                      + additionalInterest;
                    preTaxIncome = ebit - interestExpense;
                    tax = preTaxIncome * (21 / 100);
                    netIncome = preTaxIncome - tax;
                    sharesOutstanding =
                      sharesOutstanding (profile (h (acquirer m))) + sharesIssued dl
                in Inr \<lparr>pf_revenue = revenue, pf_ebitda = ebitda, pf_ebit = ebit,
                        pf_interestExpense = interestExpense, pf_netIncome = netIncome,
                        pf_sharesOutstanding = sharesOutstanding,
                        pf_eps = netIncome / sharesOutstanding\<rparr>)))"

definition calculateAccretionDilution :: "MAStandalone \<Rightarrow> MAProForma \<Rightarrow> MAAccretionDilution" where
  "calculateAccretionDilution standalone pf =
     (let epsImpact = pf_eps pf - sa_eps standalone;
          percentChange = epsImpact / sa_eps standalone
      in \<lparr>epsImpact = epsImpact, percentChange = percentChange,
          isAccretive = (epsImpact > 0)\<rparr>)"

definition calculateSynergies :: "MAModel \<Rightarrow> heap \<Rightarrow> MADeal \<Rightarrow> MAStandalone \<Rightarrow> MASynergies" where
  "calculateSynergies m h dl standalone =
     (let costSynergies = cost (synergies (ma_inputs m));
          revenueSynergies = sy_revenue (synergies (ma_inputs m));
          totalPretax = costSynergies + revenueSynergies;
          afterTax = totalPretax * (1 - 21 / 100);
          proFormaShares = sharesOutstanding (profile (h (acquirer m))) + sharesIssued dl;
          epsAccretion = afterTax / proFormaShares
      in \<lparr>costSynergies = costSynergies, revenueSynergies = revenueSynergies,
          totalPretax = totalPretax, afterTax = afterTax, epsAccretion = epsAccretion\<rparr>)"

definition calculateCreditMetrics :: "MAModel \<Rightarrow> heap \<Rightarrow> MADeal \<Rightarrow> error + MACreditMetrics" where
  "calculateCreditMetrics m h dl =
     (case js_last (incomeStatements (h (acquirer m))) of
        None \<Rightarrow> Inl TypeError
      | Some acquirerIncome \<Rightarrow>
          (case js_last (incomeStatements (h (target m))) of
             None \<Rightarrow> Inl TypeError
           | Some targetIncome \<Rightarrow>
               (case js_last (balanceSheets (h (acquirer m))) of
                  None \<Rightarrow> Inl TypeError
                | Some acquirerBalance \<Rightarrow>
                    (let preDebtEbitda = ebitda acquirerIncome;
                         postDebtEbitda = ebitda acquirerIncome + ebitda targetIncome;
                         acquirerDebt = totalDebt acquirerBalance;
                         leveragePre = acquirerDebt / preDebtEbitda;
                         leveragePost = (acquirerDebt + debtComponent dl) / postDebtEbitda
                     in Inr \<lparr>preDebtEbitda = preDebtEbitda, postDebtEbitda = postDebtEbitda,
                             leveragePre = leveragePre, leveragePost = leveragePost\<rparr>))))"

definition calculateBreakEven :: "MAModel \<Rightarrow> heap \<Rightarrow> MADeal \<Rightarrow> MAStandalone \<Rightarrow> error + MABreakEven"
where
  "calculateBreakEven m h dl standalone =
     (let proFormaShares = sharesOutstanding (profile (h (acquirer m))) + sharesIssued dl in
      case calculateProForma m h dl of
        Inl e \<Rightarrow> Inl e
      | Inr pf \<Rightarrow>
          (let epsGap = sa_eps standalone - pf_eps pf;
               requiredSynergies =
                 (if epsGap > 0 then epsGap * proFormaShares / (1 - 21 / 100) else 0)
           in case js_last (incomeStatements (h (target m))) of
                None \<Rightarrow> Inl TypeError
              | Some targetLast \<Rightarrow>
                  (case js_index (incomeStatements (h (acquirer m))) 0 of
                     None \<Rightarrow> Inl TypeError
                   | Some acquirerFirst \<Rightarrow>
                       (let targetIncome = netIncome targetLast;
                            maxPremium =
                              (sa_eps standalone * proFormaShares
                               - (netIncome acquirerFirst + targetIncome)) / targetIncome
                        in Inr \<lparr>requiredSynergies = requiredSynergies,
                                requiredPremium = max 0 maxPremium\<rparr>))))"

definition ma_analyze :: "MAModel \<Rightarrow> heap \<Rightarrow> error + MAResult" where
  "ma_analyze m h =
     (let dl = calculateDeal m h in
      case getAcquirerStandalone m h of
        Inl e \<Rightarrow> Inl e
      | Inr standalone \<Rightarrow>
          (case calculateProForma m h dl of
             Inl e \<Rightarrow> Inl e
           | Inr pf \<Rightarrow>
               (let ad = calculateAccretionDilution standalone pf;
                    sy = calculateSynergies m h dl standalone
                in case calculateCreditMetrics m h dl of
                     Inl e \<Rightarrow> Inl e
                   | Inr cm \<Rightarrow>
                       (case calculateBreakEven m h dl standalone of
                          Inl e \<Rightarrow> Inl e
                        | Inr be \<Rightarrow>
                            Inr \<lparr>deal = dl, proForma = pf, acquirerStandalone = standalone,
                                 accretionDilution = ad, ma_synergies = sy,
                                 creditMetrics = cm, breakEven = be\<rparr>))))"

section \<open>Randomness\<close>

text \<open>
  \<^verbatim>\<open>Math.random()\<close> is modelled by a fixed sequence of numbers and a counter of the calls
  made so far: the \<open>k\<close>-th call returns the \<open>k\<close>-th number. A function that can call it takes
  the counter and returns the new one.
\<close>

type_synonym random = "nat \<Rightarrow> real"

text \<open>The decimal digits of a natural number, as template literals print it.\<close>

fun decimal :: "nat \<Rightarrow> string" where
  "decimal n =
     (if n < 10 then [char_of (48 + n)]
      else decimal (n div 10) @ [char_of (48 + n mod 10)])"

section \<open>The comparable company model (models/comps.ts)\<close>

record PeerCompany =
  peer_symbol :: string
  peer_name :: string
  peer_marketCap :: real
  peer_enterpriseValue :: real
  peer_revenue :: real
  peer_ebitda :: real
  peer_netIncome :: real

text \<open>
  A statistic is \<open>None\<close> where the source's is \<^verbatim>\<open>undefined\<close> or \<^verbatim>\<open>NaN\<close> (the percentile or
  the mean of an empty array), and so is every number computed from it.
\<close>

record MultipleStats =
  low :: "real option"
  median :: "real option"
  high :: "real option"
  mean :: "real option"

record ValueRange =
  vr_low :: "real option"
  vr_base :: "real option"
  vr_high :: "real option"

record CompsTarget =
  ct_symbol :: string
  ct_revenue :: real
  ct_ebitda :: real
  ct_netIncome :: real
  ct_marketCap :: real
  ct_enterpriseValue :: real

record CompsMultiples =
  cm_evRevenue :: MultipleStats
  cm_evEbitda :: MultipleStats
  cm_pe :: MultipleStats

record CompsRanges =
  cr_evRevenue :: ValueRange
  cr_evEbitda :: ValueRange
  cr_pe :: ValueRange

record CompsResult =
  c_target :: CompsTarget
  c_peers :: "PeerCompany list"
  c_multiples :: CompsMultiples
  c_valuation :: CompsRanges
  c_impliedSharePrice :: CompsRanges

record CompsModel =
  comps_data :: ref
  peers :: "PeerCompany list"

text \<open>
  The callback of \<^verbatim>\<open>generatePeers\<close> for the peer of index \<open>i\<close>: six calls of
  \<^verbatim>\<open>Math.random()\<close>, in the order of the source, from call number \<open>k\<close> on.
\<close>

definition generatePeer :: "random \<Rightarrow> real \<Rightarrow> nat \<Rightarrow> nat \<Rightarrow> string \<Rightarrow> PeerCompany" where
  "generatePeer rnd baseRevenue k i nm =
     (let variance = 5 / 10 + rnd k;
          revenue = baseRevenue * variance * (3 / 10 + rnd (k + 1) * (15 / 10));
          ebitda = revenue * (15 / 100 + rnd (k + 2) * (2 / 10));
          netIncome = ebitda * (5 / 10 + rnd (k + 3) * (3 / 10));
          ev = ebitda * (8 + rnd (k + 4) * 8);
          marketCap = ev * (8 / 10 + rnd (k + 5) * (3 / 10))
      in \<lparr>peer_symbol = ''PEER'' @ decimal (i + 1), peer_name = nm,
          peer_marketCap = marketCap, peer_enterpriseValue = ev,
          peer_revenue = revenue, peer_ebitda = ebitda, peer_netIncome = netIncome\<rparr>)"

text \<open>\<^verbatim>\<open>peerNames.map\<close> of that callback, over the names from index \<open>i\<close> on.\<close>

fun generatePeers_from ::
  "random \<Rightarrow> real \<Rightarrow> nat \<Rightarrow> nat \<Rightarrow> string list \<Rightarrow> PeerCompany list \<times> nat"
where
  "generatePeers_from rnd baseRevenue k i [] = ([], k)"
| "generatePeers_from rnd baseRevenue k i (nm # names) =
     (case generatePeers_from rnd baseRevenue (k + 6) (Suc i) names of
        (rest, k') \<Rightarrow> (generatePeer rnd baseRevenue k i nm # rest, k'))"

definition peerNames :: "string list" where
  "peerNames = [''Peer A'', ''Peer B'', ''Peer C'', ''Peer D'', ''Peer E'', ''Peer F'',
                ''Peer G'', ''Peer H'']"

definition generatePeers :: "random \<Rightarrow> heap \<Rightarrow> ref \<Rightarrow> nat \<Rightarrow> error + (PeerCompany list \<times> nat)" where
  "generatePeers rnd h r k =
     (case js_last (incomeStatements (h r)) of
        None \<Rightarrow> Inl TypeError
      | Some lastIncome \<Rightarrow> Inr (generatePeers_from rnd (revenue lastIncome) k 0 peerNames))"

text \<open>The constructor: the only place where the class calls \<^verbatim>\<open>generatePeers\<close>.\<close>

definition CompsModel_new :: "random \<Rightarrow> heap \<Rightarrow> ref \<Rightarrow> nat \<Rightarrow> error + (CompsModel \<times> nat)" where
  "CompsModel_new rnd h r k =
     (case generatePeers rnd h r k of
        Inl e \<Rightarrow> Inl e
      | Inr (ps, k') \<Rightarrow> Inr (\<lparr>comps_data = r, peers = ps\<rparr>, k'))"

definition comps_getTargetMetrics :: "CompsModel \<Rightarrow> heap \<Rightarrow> error + CompsTarget" where
  "comps_getTargetMetrics m h =
     (let d = h (comps_data m) in
      case js_last (incomeStatements d) of
        None \<Rightarrow> Inl TypeError
      | Some lastIncome \<Rightarrow>
          (case js_last (balanceSheets d) of
             None \<Rightarrow> Inl TypeError
           | Some lastBalance \<Rightarrow>
               Inr \<lparr>ct_symbol = symbol (profile d), ct_revenue = revenue lastIncome,
                    ct_ebitda = ebitda lastIncome, ct_netIncome = netIncome lastIncome,
                    ct_marketCap = marketCap (profile d),
                    ct_enterpriseValue =
                      marketCap (profile d) + totalDebt lastBalance
                      - cashAndEquivalents lastBalance\<rparr>))"

text \<open>\<^verbatim>\<open>values.reduce((a, b) => a + b, 0) / values.length\<close>, which is \<^verbatim>\<open>NaN\<close> on no values.\<close>

definition mean_of :: "real list \<Rightarrow> real option" where
  "mean_of values =
     (if values = [] then None else Some (foldl (+) 0 values / real (length values)))"

definition comps_stats :: "real list \<Rightarrow> MultipleStats" where
  "comps_stats values =
     \<lparr>low = comps_calculatePercentile values 25,
      median = comps_calculatePercentile values 50,
      high = comps_calculatePercentile values 75,
      mean = mean_of values\<rparr>"

definition comps_calculateMultiples :: "CompsModel \<Rightarrow> heap \<Rightarrow> error + CompsMultiples" where
  "comps_calculateMultiples m h =
     (case comps_getTargetMetrics m h of
        Inl e \<Rightarrow> Inl e
      | Inr t \<Rightarrow>
          (let d = h (comps_data m);
               allCompanies =
                 peers m @
                 [\<lparr>peer_symbol = symbol (profile d), peer_name = name (profile d),
                   peer_marketCap = ct_marketCap t,
                   peer_enterpriseValue = ct_enterpriseValue t,
                   peer_revenue = ct_revenue t, peer_ebitda = ct_ebitda t,
                   peer_netIncome = ct_netIncome t\<rparr>];
               evRevenueMultiples =
                 filter (\<lambda>m. m > 0 \<and> m < 50)
                   (map (\<lambda>c. peer_enterpriseValue c / peer_revenue c) allCompanies);
               evEbitdaMultiples =
                 filter (\<lambda>m. m > 0 \<and> m < 50)
                   (map (\<lambda>c. peer_enterpriseValue c / peer_ebitda c) allCompanies);
               peMultiples =
                 filter (\<lambda>m. m > 0 \<and> m < 100)
                   (map (\<lambda>c. peer_marketCap c / peer_netIncome c) allCompanies)
           in Inr \<lparr>cm_evRevenue = comps_stats evRevenueMultiples,
                   cm_evEbitda = comps_stats evEbitdaMultiples,
                   cm_pe = comps_stats peMultiples\<rparr>))"

text \<open>The three values of a metric times the low, median and high multiple.\<close>

definition times_stats :: "real \<Rightarrow> MultipleStats \<Rightarrow> ValueRange" where
  "times_stats x st =
     \<lparr>vr_low = map_option (\<lambda>m. x * m) (low st),
      vr_base = map_option (\<lambda>m. x * m) (median st),
      vr_high = map_option (\<lambda>m. x * m) (high st)\<rparr>"

definition map_range :: "(real \<Rightarrow> real) \<Rightarrow> ValueRange \<Rightarrow> ValueRange" where
  "map_range f v =
     \<lparr>vr_low = map_option f (vr_low v), vr_base = map_option f (vr_base v),
      vr_high = map_option f (vr_high v)\<rparr>"

definition comps_calculateValuation :: "CompsModel \<Rightarrow> heap \<Rightarrow> CompsMultiples \<Rightarrow> error + CompsRanges"
where
  "comps_calculateValuation m h multiples =
     (case comps_getTargetMetrics m h of
        Inl e \<Rightarrow> Inl e
      | Inr t \<Rightarrow>
          Inr \<lparr>cr_evRevenue = times_stats (ct_revenue t) (cm_evRevenue multiples),
               cr_evEbitda = times_stats (ct_ebitda t) (cm_evEbitda multiples),
               cr_pe = times_stats (ct_netIncome t) (cm_pe multiples)\<rparr>)"

definition comps_calculateImpliedSharePrice ::
  "CompsModel \<Rightarrow> heap \<Rightarrow> CompsRanges \<Rightarrow> error + CompsRanges"
where
  "comps_calculateImpliedSharePrice m h valuation =
     (let d = h (comps_data m);
          sharesOutstanding = sharesOutstanding (profile d) in
      case js_last (balanceSheets d) of
        None \<Rightarrow> Inl TypeError
      | Some lastBalance \<Rightarrow>
          (let netDebt = totalDebt lastBalance - cashAndEquivalents lastBalance;
               evToEquity = (\<lambda>ev. (ev - netDebt) / sharesOutstanding)
           in Inr \<lparr>cr_evRevenue = map_range evToEquity (cr_evRevenue valuation),
                   cr_evEbitda = map_range evToEquity (cr_evEbitda valuation),
                   cr_pe = map_range (\<lambda>v. v / sharesOutstanding) (cr_pe valuation)\<rparr>))"

text \<open>
  \<^verbatim>\<open>analyze()\<close>, with the state it runs in: the heap and the counter of \<^verbatim>\<open>Math.random()\<close>
  calls. It returns the state it leaves.
\<close>

definition comps_analyze ::
  "random \<Rightarrow> CompsModel \<Rightarrow> heap \<times> nat \<Rightarrow> (error + CompsResult) \<times> CompsModel \<times> heap \<times> nat"
where
  "comps_analyze rnd m st =
     (case st of (h, k) \<Rightarrow>
        ((case comps_getTargetMetrics m h of
            Inl e \<Rightarrow> Inl e
          | Inr t \<Rightarrow>
              (case comps_calculateMultiples m h of
                 Inl e \<Rightarrow> Inl e
               | Inr multiples \<Rightarrow>
                   (case comps_calculateValuation m h multiples of
                      Inl e \<Rightarrow> Inl e
                    | Inr valuation \<Rightarrow>
                        (case comps_calculateImpliedSharePrice m h valuation of
                           Inl e \<Rightarrow> Inl e
                         | Inr price \<Rightarrow>
                             Inr \<lparr>c_target = t, c_peers = peers m,
                                  c_multiples = multiples, c_valuation = valuation,
                                  c_impliedSharePrice = price\<rparr>)))),
         m, h, k))"

section \<open>The precedent transaction model (models/precedent.ts)\<close>

record Transaction =
  t_date :: string
  t_target :: string
  t_acquirer :: string
  targetIndustry :: string
  dealValue :: real
  targetRevenue :: real
  targetEBITDA :: real
  t_premium :: real
  strategic :: bool

record PrecedentTarget =
  pt_revenue :: real
  pt_ebitda :: real
  pt_marketCap :: real
  pt_enterpriseValue :: real

record PrecedentMultiples =
  pm_evRevenue :: MultipleStats
  pm_evEbitda :: MultipleStats

record PrecedentRanges =
  pr_evRevenue :: ValueRange
  pr_evEbitda :: ValueRange

record PrecedentTransactionResult =
  x_transactions :: "Transaction list"
  x_target :: PrecedentTarget
  x_multiples :: PrecedentMultiples
  x_premiums :: MultipleStats
  x_valuation :: PrecedentRanges
  x_impliedSharePrice :: PrecedentRanges

record PrecedentTransactionModel =
  precedent_data :: ref
  transactions :: "Transaction list"

definition acquirers :: "string list" where
  "acquirers = [''Blackstone'', ''KKR'', ''Carlyle'', ''Bain Capital'', ''Warburg Pincus'',
                ''Thoma Bravo'', ''Vista Equity'', ''Advent International'', ''EQT'',
                ''Silver Lake'']"

definition targets :: "string list" where
  "targets = [''TechTarget'', ''SoftwareCo'', ''CloudSys'', ''DataAnalytics'',
              ''CyberSecurity'', ''AITools'', ''Fintech'', ''HealthTech'', ''EdTech'',
              ''Ecommerce'', ''SaaSPlatform'', ''MobileApp'', ''Gaming'', ''SocialMedia'',
              ''Marketplace'']"

text \<open>\<^verbatim>\<open>s.padStart(2, '0')\<close>.\<close>

definition padStart2 :: "string \<Rightarrow> string" where
  "padStart2 s = (if length s < 2 then replicate (2 - length s) (CHR ''0'') @ s else s)"

text \<open>
  The date of a transaction is the first day of a month, \<^verbatim>\<open>YYYY-MM-01\<close>. The model's
  \<^verbatim>\<open>new Date(date).getTime()\<close> counts months, which orders these dates as the milliseconds
  of the source do.
\<close>

definition digits_value :: "string \<Rightarrow> nat" where
  "digits_value s = foldl (\<lambda>a c. 10 * a + (of_char c - 48)) 0 s"

definition dateTime :: "string \<Rightarrow> int" where
  "dateTime s = int (12 * digits_value (take 4 s) + digits_value (take 2 (drop 5 s)))"

text \<open>
  The callback of \<^verbatim>\<open>generateTransactions\<close> for index \<open>i\<close>: eight calls of
  \<^verbatim>\<open>Math.random()\<close>, in the order of the source, from call number \<open>k\<close> on. The year and
  the month are floors of a product of doubles.
\<close>

definition generateTransaction ::
  "random \<Rightarrow> real \<Rightarrow> string \<Rightarrow> nat \<Rightarrow> nat \<Rightarrow> Transaction"
where
  "generateTransaction rnd baseRevenue ind k i =
     (let isStrategic = (rnd k > 5 / 10);
          variance = 5 / 10 + rnd (k + 1) * (15 / 10);
          revenue = baseRevenue * variance * (2 / 10 + rnd (k + 2));
          ebitda = revenue * (15 / 100 + rnd (k + 3) * (15 / 100));
          multiple = (if isStrategic then 10 + rnd (k + 4) * 8 else 8 + rnd (k + 4) * 6);
          dealValue = ebitda * multiple;
          premium = 15 / 100 + rnd (k + 5) * (35 / 100)
      in \<lparr>t_date =
            decimal (2020 + nat \<lfloor>double_round (rnd (k + 6) * 5)\<rfloor>) @ ''-''
            @ padStart2 (decimal (nat \<lfloor>double_round (rnd (k + 7) * 12)\<rfloor> + 1))
            @ ''-01'',
          t_target = targets ! i,
          t_acquirer = acquirers ! (i mod length acquirers),
          targetIndustry = ind,
          dealValue = dealValue, targetRevenue = revenue, targetEBITDA = ebitda,
          t_premium = premium, strategic = isStrategic\<rparr>)"

text \<open>\<^verbatim>\<open>Array.from({ length: 15 }, ...)\<close>: \<open>n\<close> more transactions from index \<open>i\<close> on.\<close>

fun generateTransactions_from ::
  "random \<Rightarrow> real \<Rightarrow> string \<Rightarrow> nat \<Rightarrow> nat \<Rightarrow> nat \<Rightarrow> Transaction list \<times> nat"
where
  "generateTransactions_from rnd baseRevenue ind k i 0 = ([], k)"
| "generateTransactions_from rnd baseRevenue ind k i (Suc n) =
     (case generateTransactions_from rnd baseRevenue ind (k + 8) (Suc i) n of
        (rest, k') \<Rightarrow> (generateTransaction rnd baseRevenue ind k i # rest, k'))"

text \<open>
  The array is then sorted by date, latest first; the sort of the source is stable, as
  \<^const>\<open>sort_key\<close> is.
\<close>

definition generateTransactions ::
  "random \<Rightarrow> heap \<Rightarrow> ref \<Rightarrow> nat \<Rightarrow> error + (Transaction list \<times> nat)"
where
  "generateTransactions rnd h r k =
     (case js_last (incomeStatements (h r)) of
        None \<Rightarrow> Inl TypeError
      | Some lastIncome \<Rightarrow>
          (case generateTransactions_from rnd (revenue lastIncome) (industry (profile (h r)))
                  k 0 15 of
             (ts, k') \<Rightarrow> Inr (sort_key (\<lambda>t. - dateTime (t_date t)) ts, k')))"

text \<open>The constructor: the only place where the class calls \<^verbatim>\<open>generateTransactions\<close>.\<close>

definition PrecedentTransactionModel_new ::
  "random \<Rightarrow> heap \<Rightarrow> ref \<Rightarrow> nat \<Rightarrow> error + (PrecedentTransactionModel \<times> nat)"
where
  "PrecedentTransactionModel_new rnd h r k =
     (case generateTransactions rnd h r k of
        Inl e \<Rightarrow> Inl e
      | Inr (ts, k') \<Rightarrow> Inr (\<lparr>precedent_data = r, transactions = ts\<rparr>, k'))"

definition precedent_getTargetMetrics ::
  "PrecedentTransactionModel \<Rightarrow> heap \<Rightarrow> error + PrecedentTarget"
where
  "precedent_getTargetMetrics m h =
     (let d = h (precedent_data m) in
      case js_last (incomeStatements d) of
        None \<Rightarrow> Inl TypeError
      | Some lastIncome \<Rightarrow>
          (case js_last (balanceSheets d) of
             None \<Rightarrow> Inl TypeError
           | Some lastBalance \<Rightarrow>
               Inr \<lparr>pt_revenue = revenue lastIncome, pt_ebitda = ebitda lastIncome,
                    pt_marketCap = marketCap (profile d),
                    pt_enterpriseValue =
                      marketCap (profile d) + totalDebt lastBalance
                      - cashAndEquivalents lastBalance\<rparr>))"

definition precedent_stats :: "real list \<Rightarrow> MultipleStats" where
  "precedent_stats values =
     \<lparr>low = precedent_calculatePercentile values 25,
      median = precedent_calculatePercentile values 50,
      high = precedent_calculatePercentile values 75,
      mean = mean_of values\<rparr>"

definition precedent_calculateMultiples :: "PrecedentTransactionModel \<Rightarrow> PrecedentMultiples" where
  "precedent_calculateMultiples m =
     (let evRevenue =
            filter (\<lambda>m. m > 0 \<and> m < 30)
              (map (\<lambda>t. dealValue t / targetRevenue t) (transactions m));
          evEbitda =
            filter (\<lambda>m. m > 0 \<and> m < 50)
              (map (\<lambda>t. dealValue t / targetEBITDA t) (transactions m))
      in \<lparr>pm_evRevenue = precedent_stats evRevenue, pm_evEbitda = precedent_stats evEbitda\<rparr>)"

definition calculatePremiums :: "PrecedentTransactionModel \<Rightarrow> MultipleStats" where
  "calculatePremiums m = precedent_stats (map t_premium (transactions m))"

definition precedent_calculateValuation ::
  "PrecedentTransactionModel \<Rightarrow> heap \<Rightarrow> PrecedentMultiples \<Rightarrow> error + PrecedentRanges"
where
  "precedent_calculateValuation m h multiples =
     (case precedent_getTargetMetrics m h of
        Inl e \<Rightarrow> Inl e
      | Inr t \<Rightarrow>
          Inr \<lparr>pr_evRevenue = times_stats (pt_revenue t) (pm_evRevenue multiples),
               pr_evEbitda = times_stats (pt_ebitda t) (pm_evEbitda multiples)\<rparr>)"

definition precedent_calculateImpliedSharePrice ::
  "PrecedentTransactionModel \<Rightarrow> heap \<Rightarrow> PrecedentRanges \<Rightarrow> error + PrecedentRanges"
where
  "precedent_calculateImpliedSharePrice m h valuation =
     (let d = h (precedent_data m);
          sharesOutstanding = sharesOutstanding (profile d) in
      case js_last (balanceSheets d) of
        None \<Rightarrow> Inl TypeError
      | Some lastBalance \<Rightarrow>
          (let netDebt = totalDebt lastBalance - cashAndEquivalents lastBalance;
               evToEquity = (\<lambda>ev. (ev - netDebt) / sharesOutstanding)
           in Inr \<lparr>pr_evRevenue = map_range evToEquity (pr_evRevenue valuation),
                   pr_evEbitda = map_range evToEquity (pr_evEbitda valuation)\<rparr>))"

text \<open>\<^verbatim>\<open>analyze()\<close>, with the state it runs in and the state it leaves.\<close>

definition precedent_analyze ::
  "random \<Rightarrow> PrecedentTransactionModel \<Rightarrow> heap \<times> nat
   \<Rightarrow> (error + PrecedentTransactionResult) \<times> PrecedentTransactionModel \<times> heap \<times> nat"
where
  "precedent_analyze rnd m st =
     (case st of (h, k) \<Rightarrow>
        ((case precedent_getTargetMetrics m h of
            Inl e \<Rightarrow> Inl e
          | Inr t \<Rightarrow>
              (let multiples = precedent_calculateMultiples m;
                   premiums = calculatePremiums m
               in case precedent_calculateValuation m h multiples of
                    Inl e \<Rightarrow> Inl e
                  | Inr valuation \<Rightarrow>
                      (case precedent_calculateImpliedSharePrice m h valuation of
                         Inl e \<Rightarrow> Inl e
                       | Inr price \<Rightarrow>
                           Inr \<lparr>x_transactions = transactions m, x_target = t,
                                x_multiples = multiples, x_premiums = premiums,
                                x_valuation = valuation, x_impliedSharePrice = price\<rparr>))),
         m, h, k))"

section \<open>The same cash flows at two discount rates\<close>

text \<open>
  Two projection rows of the same year and the same free cash flow, the first discounted at
  \<open>w\<close> and the second at \<open>w'\<close>. The relation is used to compare two runs of the DCF loop.
\<close>

definition rediscounted :: "real \<Rightarrow> real \<Rightarrow> DCFProjection \<Rightarrow> DCFProjection \<Rightarrow> bool" where
  "rediscounted w w' p p' \<longleftrightarrow>
     p_fcf p' = p_fcf p \<and> p_year p' = p_year p \<and> 0 < p_year p
     \<and> p_presentValue p = p_fcf p / (1 + w) ^ p_year p
     \<and> p_presentValue p' = p_fcf p / (1 + w') ^ p_year p"

section \<open>Example snapshots\<close>

text \<open>
  A snapshot with one period in each series, the heap that holds it at every reference, and
  a call with no overrides.
\<close>

definition exampleData :: CompanyData where
  "exampleData =
     \<lparr>profile = \<lparr>symbol = ''ACME'', name = ''Acme'', industry = ''Software'',
                 sector = ''Technology'', marketCap = 1000, sharesOutstanding = 10,
                 beta = None\<rparr>,
      incomeStatements =
        [\<lparr>date = ''2024-12-31'', revenue = 100, grossProfit = 40, operatingIncome = 20,
          netIncome = 10, ebitda = 30, depreciation = None, amortization = None\<rparr>],
      cashFlowStatements =
        [\<lparr>cf_date = ''2024-12-31'', operatingCashFlow = 25, capitalExpenditure = - 8,
          freeCashFlow = 17, cf_depreciation = 5, stockBasedCompensation = None,
          changeInWorkingCapital = None\<rparr>],
      balanceSheets =
        [\<lparr>bs_date = ''2024-12-31'', totalAssets = 200, totalLiabilities = 100,
          totalEquity = 100, totalDebt = 50, cashAndEquivalents = 20,
          workingCapital = None\<rparr>],
      stockPrice = \<lparr>current = 100, fiftyTwoWeekHigh = 120, fiftyTwoWeekLow = 80,
                    averageVolume = 1000\<rparr>\<rparr>"

definition exampleHeap :: heap where
  "exampleHeap = (\<lambda>r. exampleData)"

definition noDCFInputs :: DCFInputs where
  "noDCFInputs =
     \<lparr>in_projectionYears = None, in_revenueGrowth = None, in_terminalGrowth = None,
      in_wacc = None, in_taxRate = None, in_riskFreeRate = None,
      in_marketRiskPremium = None, in_beta = None\<rparr>"

definition noThreeStatementInputs :: ThreeStatementInputs where
  "noThreeStatementInputs =
     \<lparr>tin_projectionYears = None, tin_revenueGrowth = None, tin_grossMargin = None,
      tin_operatingMargin = None, tin_taxRate = None, tin_workingCapitalDays = None\<rparr>"

definition noLBOInputs :: LBOInputs where
  "noLBOInputs =
     \<lparr>lin_purchasePrice = None, lin_premium = None, lin_debtRatio = None,
      lin_equityRatio = None, lin_interestRate = None, lin_exitMultiple = None,
      lin_holdingPeriod = None, lin_revenueGrowth = None, lin_ebitdaMargin = None\<rparr>"

text \<open>A DCF model of the example snapshot with a WACC of 10%.\<close>

definition exampleDCF :: DCFModel where
  "exampleDCF = DCFModel_new exampleHeap 0 (noDCFInputs\<lparr>in_wacc := Some (1 / 10)\<rparr>)"

text \<open>
  The LBO model that the constructor builds from the example snapshot and a purchase price
  of 1 a share.
\<close>

definition exampleLBO :: LBOModel where
  "exampleLBO =
     \<lparr>lbo_data = 0,
      lbo_inputs = \<lparr>purchasePrice = 1, premium = 30 / 100, debtRatio = 60 / 100,
                    equityRatio = 40 / 100, interestRate = 8 / 100, exitMultiple = 10,
                    holdingPeriod = 5, lbo_revenueGrowth = 8 / 100,
                    ebitdaMargin = 25 / 100\<rparr>\<rparr>"






section \<open>Reading the last period\<close>

lemma js_last_Some: "xs \<noteq> [] \<Longrightarrow> js_last xs = Some (last xs)"
  by (cases xs) (simp_all add: js_last_def)

lemma js_last_None: "js_last xs = None \<longleftrightarrow> xs = []"
  by (cases xs) (simp_all add: js_last_def)

lemma js_last_eq_Some: "js_last xs = Some x \<longleftrightarrow> xs \<noteq> [] \<and> x = last xs"
  by (cases xs) (auto simp: js_last_def)

lemma growthRate_Some: "rg \<noteq> [] \<Longrightarrow> \<exists>g. growthRate rg y = Some g"
  by (cases rg) (auto simp: growthRate_def js_last_def js_index_def split: option.splits)

section \<open>The default WACC\<close>




section \<open>The cash carry of the three-statement projection\<close>

lemma project_step_cash:
  "project_step inp y g li lb = (i, b, c) \<Longrightarrow>
     pc_beginningCash c = cashAndEquivalents lb
     \<and> pc_endingCash c = pc_beginningCash c + pc_netChangeInCash c"
  by (auto simp: project_step_def Let_def)

lemma project_loop_carry:
  assumes "project_loop inp n y li lb res = Inr (lb', res')"
    and "\<forall>i. Suc i < length (r_cashFlowStatements res) \<longrightarrow>
           pc_endingCash (r_cashFlowStatements res ! i)
           = pc_beginningCash (r_cashFlowStatements res ! Suc i)"
    and "r_cashFlowStatements res \<noteq> [] \<longrightarrow>
           (\<exists>b. lb = Some b \<and> pc_endingCash (last (r_cashFlowStatements res)) = cashAndEquivalents b)"
    and "\<forall>c \<in> set (r_cashFlowStatements res).
           pc_endingCash c = pc_beginningCash c + pc_netChangeInCash c"
  shows "(\<forall>i. Suc i < length (r_cashFlowStatements res') \<longrightarrow>
           pc_endingCash (r_cashFlowStatements res' ! i)
           = pc_beginningCash (r_cashFlowStatements res' ! Suc i))
       \<and> (\<forall>c \<in> set (r_cashFlowStatements res').
           pc_endingCash c = pc_beginningCash c + pc_netChangeInCash c)"
  using assms
proof (induction n arbitrary: y li lb res)
  case 0
  then show ?case by simp
next
  case (Suc n)
  from Suc.prems(1) obtain l b g where li: "li = Some l" and lb: "lb = Some b"
    and g: "growthRate (ts_revenueGrowth inp) y = Some g"
    by (auto split: option.splits)
  obtain i bb c where st: "project_step inp y g l b = (i, bb, c)"
    by (cases "project_step inp y g l b") auto
  let ?res = "\<lparr>r_incomeStatements = r_incomeStatements res @ [i],
                r_balanceSheets = r_balanceSheets res @ [bb],
                r_cashFlowStatements = r_cashFlowStatements res @ [c]\<rparr>"
  from Suc.prems(1) li lb g st
  have rec: "project_loop inp n (Suc y) (Some (l\<lparr>revenue := pi_revenue i, netIncome := pi_netIncome i\<rparr>))
               (Some (b\<lparr>cashAndEquivalents := pc_endingCash c\<rparr>)) ?res = Inr (lb', res')"
    by simp
  from project_step_cash [OF st]
  have c1: "pc_beginningCash c = cashAndEquivalents b"
    and c2: "pc_endingCash c = pc_beginningCash c + pc_netChangeInCash c" by auto
  have p1: "\<forall>i. Suc i < length (r_cashFlowStatements ?res) \<longrightarrow>
           pc_endingCash (r_cashFlowStatements ?res ! i)
           = pc_beginningCash (r_cashFlowStatements ?res ! Suc i)"
  proof (intro allI impI)
    fix j assume j: "Suc j < length (r_cashFlowStatements ?res)"
    show "pc_endingCash (r_cashFlowStatements ?res ! j)
           = pc_beginningCash (r_cashFlowStatements ?res ! Suc j)"
    proof (cases "Suc j < length (r_cashFlowStatements res)")
      case True
      with Suc.prems(2) show ?thesis by (simp add: nth_append)
    next
      case False
      with j have e: "Suc j = length (r_cashFlowStatements res)" by simp
      then have ne: "r_cashFlowStatements res \<noteq> []" by auto
      with Suc.prems(3) lb have "pc_endingCash (last (r_cashFlowStatements res)) = cashAndEquivalents b"
        by auto
      moreover have "last (r_cashFlowStatements res) = r_cashFlowStatements res ! j"
        using e ne by (metis diff_Suc_1 last_conv_nth)
      ultimately show ?thesis using e c1 by (simp add: nth_append)
    qed
  qed
  have p2: "r_cashFlowStatements ?res \<noteq> [] \<longrightarrow>
           (\<exists>b'. Some (b\<lparr>cashAndEquivalents := pc_endingCash c\<rparr>) = Some b'
              \<and> pc_endingCash (last (r_cashFlowStatements ?res)) = cashAndEquivalents b')"
    by simp
  have p3: "\<forall>c \<in> set (r_cashFlowStatements ?res).
           pc_endingCash c = pc_beginningCash c + pc_netChangeInCash c"
    using Suc.prems(4) c2 by auto
  from Suc.IH [OF rec p1 p2 p3] show ?case .
qed

lemma project_loop_first:
  assumes "project_loop inp n y li lb res = Inr (lb', res')"
  shows "r_cashFlowStatements res' \<noteq> [] \<longrightarrow>
         pc_beginningCash (hd (r_cashFlowStatements res'))
         = (if r_cashFlowStatements res = [] then cashAndEquivalents (the lb)
            else pc_beginningCash (hd (r_cashFlowStatements res)))"
  using assms
proof (induction n arbitrary: y li lb res)
  case 0
  then show ?case by auto
next
  case (Suc n)
  from Suc.prems(1) obtain l b g where li: "li = Some l" and lb: "lb = Some b"
    and g: "growthRate (ts_revenueGrowth inp) y = Some g"
    by (auto split: option.splits)
  obtain i bb c where st: "project_step inp y g l b = (i, bb, c)"
    by (cases "project_step inp y g l b") auto
  let ?res = "\<lparr>r_incomeStatements = r_incomeStatements res @ [i],
                r_balanceSheets = r_balanceSheets res @ [bb],
                r_cashFlowStatements = r_cashFlowStatements res @ [c]\<rparr>"
  from Suc.prems(1) li lb g st
  have rec: "project_loop inp n (Suc y) (Some (l\<lparr>revenue := pi_revenue i, netIncome := pi_netIncome i\<rparr>))
               (Some (b\<lparr>cashAndEquivalents := pc_endingCash c\<rparr>)) ?res = Inr (lb', res')"
    by simp
  from project_step_cash [OF st]
  have c1: "pc_beginningCash c = cashAndEquivalents b" by auto
  from Suc.IH [OF rec] c1 lb show ?case by (cases "r_cashFlowStatements res") auto
qed

lemma project_loop_total:
  assumes "ts_revenueGrowth inp \<noteq> []"
  shows "\<exists>lb' res'. project_loop inp n y (Some l) (Some b) res = Inr (lb', res')
           \<and> length (r_cashFlowStatements res') = length (r_cashFlowStatements res) + n"
proof (induction n arbitrary: y l b res)
  case 0
  then show ?case by simp
next
  case (Suc n)
  from growthRate_Some [OF assms] obtain g where g: "growthRate (ts_revenueGrowth inp) y = Some g"
    by blast
  obtain i bb c where st: "project_step inp y g l b = (i, bb, c)"
    by (cases "project_step inp y g l b") auto
  from Suc.IH [of "Suc y" "l\<lparr>revenue := pi_revenue i, netIncome := pi_netIncome i\<rparr>"
      "b\<lparr>cashAndEquivalents := pc_endingCash c\<rparr>"
      "\<lparr>r_incomeStatements = r_incomeStatements res @ [i],
                r_balanceSheets = r_balanceSheets res @ [bb],
                r_cashFlowStatements = r_cashFlowStatements res @ [c]\<rparr>"]
  show ?case using g st by auto
qed

lemma project_carry:
  assumes p: "project m h = (Inr res, h')"
  shows "(\<forall>i. Suc i < length (r_cashFlowStatements res) \<longrightarrow>
         pc_endingCash (r_cashFlowStatements res ! i)
         = pc_beginningCash (r_cashFlowStatements res ! Suc i))
      \<and> (\<forall>c \<in> set (r_cashFlowStatements res).
           pc_endingCash c = pc_beginningCash c + pc_netChangeInCash c)
      \<and> (r_cashFlowStatements res \<noteq> [] \<longrightarrow>
           pc_beginningCash (hd (r_cashFlowStatements res))
           = cashAndEquivalents (last (balanceSheets (h (ts_data m)))))"
proof -
  let ?e = "\<lparr>r_incomeStatements = [], r_balanceSheets = [], r_cashFlowStatements = []\<rparr>"
  from p obtain lb' where
    l: "project_loop (ts_inputs m) (loop_count (ts_projectionYears (ts_inputs m))) 1
          (js_last (incomeStatements (h (ts_data m)))) (js_last (balanceSheets (h (ts_data m)))) ?e
        = Inr (lb', res)"
    by (auto simp: project_def Let_def split: sum.splits prod.splits)
  have cc: "(\<forall>i. Suc i < length (r_cashFlowStatements res) \<longrightarrow>
         pc_endingCash (r_cashFlowStatements res ! i)
         = pc_beginningCash (r_cashFlowStatements res ! Suc i))
      \<and> (\<forall>c \<in> set (r_cashFlowStatements res).
           pc_endingCash c = pc_beginningCash c + pc_netChangeInCash c)"
    by (rule project_loop_carry [OF l]) simp_all
  have first: "pc_beginningCash (hd (r_cashFlowStatements res))
           = cashAndEquivalents (last (balanceSheets (h (ts_data m))))"
    if ne: "r_cashFlowStatements res \<noteq> []"
  proof -
    have bs: "balanceSheets (h (ts_data m)) \<noteq> []"
    proof
      assume "balanceSheets (h (ts_data m)) = []"
      with l have "res = ?e"
        by (cases "loop_count (ts_projectionYears (ts_inputs m))")
           (auto simp: js_last_def split: option.splits)
      with ne show False by simp
    qed
    from project_loop_first [OF l] ne bs show ?thesis
      by (auto simp: js_last_def split: list.splits)
  qed
  from cc first show ?thesis by blast
qed

lemma project_total:
  assumes a: "incomeStatements (h (ts_data m)) \<noteq> []" "balanceSheets (h (ts_data m)) \<noteq> []"
        "ts_revenueGrowth (ts_inputs m) \<noteq> []"
  shows "\<exists>res h'. project m h = (Inr res, h')
           \<and> length (r_cashFlowStatements res) = loop_count (ts_projectionYears (ts_inputs m))"
proof -
  from a obtain l b where l: "js_last (incomeStatements (h (ts_data m))) = Some l"
    and b: "js_last (balanceSheets (h (ts_data m))) = Some b"
    by (simp add: js_last_Some)
  from a project_loop_total [of "ts_inputs m" "loop_count (ts_projectionYears (ts_inputs m))" 1 l b
      "\<lparr>r_incomeStatements = [], r_balanceSheets = [], r_cashFlowStatements = []\<rparr>"]
  show ?thesis
    by (auto simp: project_def Let_def l b)
qed

text \<open>
  Claim C3. In every result of \<^verbatim>\<open>project()\<close> the ending cash of a year is the beginning
  cash of the next, each year's ending cash is its beginning cash plus its net change in
  cash, and the first year begins with the cash of the snapshot's last balance sheet. On a
  snapshot with non-empty series (and at least one growth rate) \<^verbatim>\<open>project()\<close> returns
  such a result, with one cash flow statement for each projection year.
\<close>

theorem three_statement_cash_carry:
  "(\<forall>res h'. project m h = (Inr res, h') \<longrightarrow>
      (\<forall>i. Suc i < length (r_cashFlowStatements res) \<longrightarrow>
         pc_endingCash (r_cashFlowStatements res ! i)
         = pc_beginningCash (r_cashFlowStatements res ! Suc i))
      \<and> (\<forall>c \<in> set (r_cashFlowStatements res).
           pc_endingCash c = pc_beginningCash c + pc_netChangeInCash c)
      \<and> (r_cashFlowStatements res \<noteq> [] \<longrightarrow>
           pc_beginningCash (hd (r_cashFlowStatements res))
           = cashAndEquivalents (last (balanceSheets (h (ts_data m))))))
   \<and> (incomeStatements (h (ts_data m)) \<noteq> [] \<and> balanceSheets (h (ts_data m)) \<noteq> []
        \<and> ts_revenueGrowth (ts_inputs m) \<noteq> [] \<longrightarrow>
        (\<exists>res h'. project m h = (Inr res, h')
           \<and> length (r_cashFlowStatements res)
               = loop_count (ts_projectionYears (ts_inputs m))))"
  using project_carry [of m h] project_total [of h m] by blast

theorem three_statement_cash_carry_witness:
  "(case project (ThreeStatementModel_new exampleHeap 0 noThreeStatementInputs) exampleHeap of
      (Inr res, h') \<Rightarrow>
        length (r_cashFlowStatements res) = 5
        \<and> pc_endingCash (r_cashFlowStatements res ! 0) = 424947 / 14600
        \<and> pc_beginningCash (r_cashFlowStatements res ! 1) = 424947 / 14600
    | (Inl e, h') \<Rightarrow> False)"
  using three_statement_cash_carry
    [of "ThreeStatementModel_new exampleHeap 0 noThreeStatementInputs" exampleHeap]
  by (simp add: project_def ThreeStatementModel_new_def exampleHeap_def exampleData_def
      noThreeStatementInputs_def js_last_def loop_count_def nullish_def numeral_eq_Suc
      growthRate_def js_index_def project_step_def Let_def set_last_def)

section \<open>The cash sweep of the LBO projection\<close>

lemma lbo_step_sweep:
  "debtRepayment (lbo_step inp y rv d) = min (l_freeCashFlow (lbo_step inp y rv d)) d
   \<and> endingDebt (lbo_step inp y rv d) = d - debtRepayment (lbo_step inp y rv d)
   \<and> 0 \<le> endingDebt (lbo_step inp y rv d)"
  by (simp add: lbo_step_def Let_def min_def)

lemma lbo_loop_acc: "lbo_loop inp n y rv d acc = acc @ lbo_loop inp n y rv d []"
proof (induction n arbitrary: y rv d acc)
  case 0
  then show ?case by simp
next
  case (Suc n)
  show ?case
    by (simp add: Let_def Suc.IH [of _ _ _ "acc @ [x]" for x] Suc.IH [of _ _ _ "[x]" for x])
qed

lemma lbo_loop_Suc:
  "lbo_loop inp (Suc n) y rv d [] =
     lbo_step inp y rv d
     # lbo_loop inp n (Suc y) (l_revenue (lbo_step inp y rv d)) (endingDebt (lbo_step inp y rv d)) []"
  using lbo_loop_acc [of inp n "Suc y" _ _ "[lbo_step inp y rv d]"] by (simp add: Let_def)

lemma lbo_loop_length: "length (lbo_loop inp n y rv d []) = n"
  by (induction n arbitrary: y rv d) (simp_all add: lbo_loop_Suc del: lbo_loop.simps(2))

lemma lbo_loop_sweep:
  "i < n \<Longrightarrow>
   (let ps = lbo_loop inp n y rv d [];
        before = (if i = 0 then d else endingDebt (ps ! (i - 1)))
    in debtRepayment (ps ! i) = min (l_freeCashFlow (ps ! i)) before
       \<and> endingDebt (ps ! i) = before - debtRepayment (ps ! i)
       \<and> 0 \<le> endingDebt (ps ! i))"
proof (induction n arbitrary: i y rv d)
  case 0
  then show ?case by simp
next
  case (Suc n)
  show ?case
  proof (cases i)
    case 0
    then show ?thesis using lbo_step_sweep [of inp y rv d]
      by (simp add: lbo_loop_Suc Let_def del: lbo_loop.simps)
  next
    case (Suc j)
    with Suc.prems have j: "j < n" by simp
    from Suc.IH [OF j, of "Suc y" "l_revenue (lbo_step inp y rv d)"
        "endingDebt (lbo_step inp y rv d)"]
    show ?thesis using Suc
      by (cases j) (simp_all add: lbo_loop_Suc Let_def del: lbo_loop.simps)
  qed
qed

lemma lbo_calculate_projections:
  assumes "lbo_calculate m h = Inr r"
  shows "\<exists>rv. lbo_projections r =
           lbo_loop (lbo_inputs m) (loop_count (holdingPeriod (lbo_inputs m))) 1 rv
             (d_totalDebt (lbo_debt r)) []"
  using assms
  by (auto simp: lbo_calculate_def lbo_calculateProjections_def Let_def
      split: sum.splits option.splits)

lemma lbo_calculate_total:
  assumes "incomeStatements (h (lbo_data m)) \<noteq> []" "balanceSheets (h (lbo_data m)) \<noteq> []"
    "1 \<le> holdingPeriod (lbo_inputs m)"
  shows "\<exists>r. lbo_calculate m h = Inr r
           \<and> length (lbo_projections r) = loop_count (holdingPeriod (lbo_inputs m))"
proof -
  from assms(3) have "1 \<le> \<lfloor>holdingPeriod (lbo_inputs m)\<rfloor>" by linarith
  then obtain n where n: "loop_count (holdingPeriod (lbo_inputs m)) = Suc n"
    by (cases "loop_count (holdingPeriod (lbo_inputs m))") (auto simp: loop_count_def)
  have ne: "lbo_loop inp (Suc n) y rv d [] \<noteq> []" for inp y rv d
    using lbo_loop_length [of inp "Suc n" y rv d] by (metis length_0_conv nat.simps(3))
  show ?thesis
    using assms(1,2) ne
    by (simp add: lbo_calculate_def lbo_calculateProjections_def calculateEntry_def
        getNetDebt_def calculateExit_def js_last_Some Let_def n lbo_loop_length
        del: lbo_loop.simps)
qed

text \<open>
  Claim C4. In the projections of every result of the LBO's \<^verbatim>\<open>calculate()\<close>, each year's
  debt repayment is the minimum of the year's free cash flow and the debt outstanding before
  it (the total debt of the debt structure in the first year, the previous year's ending
  debt afterwards), the ending debt is the debt before less the repayment, and the ending
  debt is never negative. On a snapshot with non-empty series and a holding period of at
  least one year, \<^verbatim>\<open>calculate()\<close> returns such a result, with one projection for each year.
\<close>

theorem lbo_debt_floor:
  "(\<forall>r i. lbo_calculate m h = Inr r \<and> i < length (lbo_projections r) \<longrightarrow>
      (let ps = lbo_projections r;
           before = (if i = 0 then d_totalDebt (lbo_debt r) else endingDebt (ps ! (i - 1)))
       in debtRepayment (ps ! i) = min (l_freeCashFlow (ps ! i)) before
          \<and> endingDebt (ps ! i) = before - debtRepayment (ps ! i)
          \<and> 0 \<le> endingDebt (ps ! i)))
   \<and> (incomeStatements (h (lbo_data m)) \<noteq> [] \<and> balanceSheets (h (lbo_data m)) \<noteq> []
        \<and> 1 \<le> holdingPeriod (lbo_inputs m) \<longrightarrow>
        (\<exists>r. lbo_calculate m h = Inr r
           \<and> length (lbo_projections r) = loop_count (holdingPeriod (lbo_inputs m))))"
proof -
  have a: "let ps = lbo_projections r;
           before = (if i = 0 then d_totalDebt (lbo_debt r) else endingDebt (ps ! (i - 1)))
       in debtRepayment (ps ! i) = min (l_freeCashFlow (ps ! i)) before
          \<and> endingDebt (ps ! i) = before - debtRepayment (ps ! i)
          \<and> 0 \<le> endingDebt (ps ! i)"
    if c: "lbo_calculate m h = Inr r" and i: "i < length (lbo_projections r)" for r i
  proof -
    from lbo_calculate_projections [OF c] obtain rv where
      ps: "lbo_projections r =
           lbo_loop (lbo_inputs m) (loop_count (holdingPeriod (lbo_inputs m))) 1 rv
             (d_totalDebt (lbo_debt r)) []" by blast
    with i have "i < loop_count (holdingPeriod (lbo_inputs m))"
      by (simp add: lbo_loop_length)
    from lbo_loop_sweep [OF this, of "lbo_inputs m" 1 rv "d_totalDebt (lbo_debt r)"] ps
    show ?thesis by simp
  qed
  from a lbo_calculate_total [of h m] show ?thesis by blast
qed

lemma exampleLBO_new:
  "LBOModel_new exampleHeap 0 (noLBOInputs\<lparr>lin_purchasePrice := Some 1\<rparr>) = Inr exampleLBO"
  by (simp add: LBOModel_new_def exampleLBO_def getNetDebt_def noLBOInputs_def exampleHeap_def
      exampleData_def js_last_def nullish_def)

lemma exampleLBO_sweep:
  "map debtRepayment (lbo_loop (lbo_inputs exampleLBO) 5 1 100 24 [])
     = [8367 / 625, 6633 / 625, 0, 0, 0]
   \<and> map endingDebt (lbo_loop (lbo_inputs exampleLBO) 5 1 100 24 []) = [6633 / 625, 0, 0, 0, 0]"
  by (simp add: exampleLBO_def numeral_eq_Suc lbo_step_def Let_def)

lemma lbo_calculate_loop:
  assumes "lbo_calculate m h = Inr r"
  shows "lbo_projections r =
           lbo_loop (lbo_inputs m) (loop_count (holdingPeriod (lbo_inputs m))) 1
             (revenue (last (incomeStatements (h (lbo_data m)))))
             (d_totalDebt (lbo_debt r)) []
         \<and> lbo_debt r = calculateDebtStructure m (lbo_entry r)
         \<and> calculateEntry m h = Inr (lbo_entry r)"
  using assms
  by (auto simp: lbo_calculate_def lbo_calculateProjections_def Let_def js_last_def
      split: sum.splits option.splits list.splits)

theorem lbo_debt_floor_witness:
  "\<exists>r. lbo_calculate exampleLBO exampleHeap = Inr r
       \<and> d_totalDebt (lbo_debt r) = 24
       \<and> length (lbo_projections r) = 5
       \<and> (\<forall>i < 5. 0 \<le> endingDebt (lbo_projections r ! i))
       \<and> map endingDebt (lbo_projections r) = [6633 / 625, 0, 0, 0, 0]"
proof -
  note t = lbo_debt_floor [of exampleLBO exampleHeap]
  have hyp: "incomeStatements (exampleHeap (lbo_data exampleLBO)) \<noteq> []
      \<and> balanceSheets (exampleHeap (lbo_data exampleLBO)) \<noteq> []
      \<and> 1 \<le> holdingPeriod (lbo_inputs exampleLBO)"
    by (simp add: exampleLBO_def exampleHeap_def exampleData_def)
  have five: "loop_count (holdingPeriod (lbo_inputs exampleLBO)) = 5"
    by (simp add: exampleLBO_def loop_count_def)
  from t hyp obtain r where r: "lbo_calculate exampleLBO exampleHeap = Inr r"
    and len: "length (lbo_projections r) = loop_count (holdingPeriod (lbo_inputs exampleLBO))"
    by blast
  from t r have floor: "\<forall>i < length (lbo_projections r). 0 \<le> endingDebt (lbo_projections r ! i)"
    unfolding Let_def by blast
  from lbo_calculate_loop [OF r]
  have e: "calculateEntry exampleLBO exampleHeap = Inr (lbo_entry r)"
    and d: "lbo_debt r = calculateDebtStructure exampleLBO (lbo_entry r)"
    and ps: "lbo_projections r =
           lbo_loop (lbo_inputs exampleLBO) (loop_count (holdingPeriod (lbo_inputs exampleLBO))) 1
             (revenue (last (incomeStatements (exampleHeap (lbo_data exampleLBO)))))
             (d_totalDebt (lbo_debt r)) []"
    by simp_all
  have "debtFinancing (projr (calculateEntry exampleLBO exampleHeap)) = 24"
    by (simp add: calculateEntry_def getNetDebt_def exampleLBO_def exampleHeap_def
        exampleData_def js_last_def Let_def)
  with e have "debtFinancing (lbo_entry r) = 24"
    by simp
  with d have debt: "d_totalDebt (lbo_debt r) = 24"
    by (simp add: calculateDebtStructure_def Let_def)
  have rv: "revenue (last (incomeStatements (exampleHeap (lbo_data exampleLBO)))) = 100"
    by (simp add: exampleHeap_def exampleData_def)
  from ps have "lbo_projections r = lbo_loop (lbo_inputs exampleLBO) 5 1 100 24 []"
    unfolding five debt rv .
  with exampleLBO_sweep have "map endingDebt (lbo_projections r) = [6633 / 625, 0, 0, 0, 0]"
    by simp
  with r debt len five floor show ?thesis by auto
qed

section \<open>The percentile helper is nearest-rank\<close>















section \<open>What the models write into the caller's snapshot\<close>

text \<open>
  Claim C1, at a failing input. On the example snapshot, with a WACC of 10%,
  \<^verbatim>\<open>calculate()\<close> is called, then \<^verbatim>\<open>sensitivityAnalysis([0.08, 0.12], [0.02])\<close>, then
  \<^verbatim>\<open>calculate()\<close> again. The sweep restores the instance's inputs, but every
  \<^verbatim>\<open>calculate()\<close> has compounded the revenue of the snapshot's last income statement, so
  the two valuations differ: the first projects a first-year revenue of 115, the second of
  about 490.7.
\<close>

theorem dcf_sensitivity_changes_calculate:
  "(case calculate exampleDCF exampleHeap of (before, h1) \<Rightarrow>
    case sensitivityAnalysis [8 / 100, 12 / 100] [2 / 100] exampleDCF h1 of (grid, m2, h2) \<Rightarrow>
    case calculate m2 h2 of (after, h3) \<Rightarrow>
      inputs m2 = inputs exampleDCF \<and> before \<noteq> after
      \<and> map_sum id (\<lambda>v. p_revenue (hd (projections v))) before = Inr 115
      \<and> map_sum id (\<lambda>v. p_revenue (hd (projections v))) after
          = Inr (374371190822813676723 / 762939453125000000))"
  by (simp add: exampleDCF_def calculate_def calculateProjections_def DCFModel_new_def
      exampleHeap_def exampleData_def noDCFInputs_def js_last_def loop_count_def nullish_def
      defaultGrowth_def numeral_eq_Suc growthRate_def js_index_def projection_step_def
      Let_def set_last_def calculateTerminalValue_def calculateEquityValue_def
      calculateEnterpriseValue_def sensitivityAnalysis_def)

text \<open>
  Claim C2, at a failing input. On the example snapshot the last income statement has a
  revenue of 100 and the last balance sheet a cash balance of 20. After \<^verbatim>\<open>calculate()\<close>
  of a DCF model built from it, the snapshot's revenue is the revenue projected for year 5;
  after \<^verbatim>\<open>project()\<close> of a three-statement model built from it, the snapshot's cash
  balance is the ending cash projected for year 5.
\<close>

theorem models_write_the_snapshot:
  "map revenue (incomeStatements (exampleHeap 0)) = [100]
   \<and> map revenue (incomeStatements
        (snd (calculate (DCFModel_new exampleHeap 0 noDCFInputs) exampleHeap) 0))
      = [2534301 / 15625]
   \<and> map cashAndEquivalents (balanceSheets (exampleHeap 0)) = [20]
   \<and> map cashAndEquivalents (balanceSheets
        (snd (project (ThreeStatementModel_new exampleHeap 0 noThreeStatementInputs)
                exampleHeap) 0))
      = [104299109009 / 1140625000]"
  by (simp add: calculate_def calculateProjections_def DCFModel_new_def
      exampleHeap_def exampleData_def noDCFInputs_def js_last_def loop_count_def nullish_def
      defaultGrowth_def numeral_eq_Suc growthRate_def js_index_def projection_step_def
      Let_def set_last_def calculateTerminalValue_def calculateEquityValue_def
      calculateEnterpriseValue_def defaultWACC_def falsy_or_def
      project_def ThreeStatementModel_new_def noThreeStatementInputs_def project_step_def)

section \<open>A growth rate of zero\<close>

text \<open>
  Claim C7, at a failing input. With the growth rates 0.10, 0 and 0.05, the second year is
  within the array and its rate is 0, but both loops apply the last rate, 0.05: the
  revenue projected for year 2 is 110 times 1.05, not 110. Years 4 and 5, past the end of
  the array, take the last rate as well.
\<close>

theorem zero_growth_rate_replaced:
  "growthRate [1 / 10, 0, 1 / 20] 2 = Some (1 / 20)
   \<and> map_sum id (\<lambda>v. map p_revenue (projections v))
        (fst (calculate
           (DCFModel_new exampleHeap 0
              (noDCFInputs\<lparr>in_revenueGrowth := Some [1 / 10, 0, 1 / 20]\<rparr>)) exampleHeap))
      = Inr [110, 231 / 2, 4851 / 40, 101871 / 800, 2139291 / 16000]
   \<and> map_sum id (\<lambda>v. map pi_revenue (r_incomeStatements v))
        (fst (project
           (ThreeStatementModel_new exampleHeap 0
              (noThreeStatementInputs\<lparr>tin_revenueGrowth := Some [1 / 10, 0, 1 / 20]\<rparr>))
           exampleHeap))
      = Inr [110, 231 / 2, 4851 / 40, 101871 / 800, 2139291 / 16000]"
  by (simp add: calculate_def calculateProjections_def DCFModel_new_def
      exampleHeap_def exampleData_def noDCFInputs_def js_last_def loop_count_def nullish_def
      numeral_eq_Suc growthRate_def js_index_def projection_step_def
      Let_def set_last_def calculateTerminalValue_def calculateEquityValue_def
      calculateEnterpriseValue_def defaultWACC_def falsy_or_def
      project_def ThreeStatementModel_new_def noThreeStatementInputs_def project_step_def)

section \<open>The implied price and the discount rate\<close>

lemma projections_loop_rediscounted:
  assumes "projections_loop inp n y c ls acc = Inr (ls1, ps)"
    and "list_all2 (rediscounted (wacc inp) w') acc acc'"
    and "0 < y"
  shows "\<exists>ps'. projections_loop (inp\<lparr>wacc := w'\<rparr>) n y c ls acc' = Inr (ls1, ps')
           \<and> list_all2 (rediscounted (wacc inp) w') ps ps'"
  using assms
proof (induction n arbitrary: y c ls acc acc')
  case 0
  then show ?case by simp
next
  case (Suc n)
  from Suc.prems(1) obtain g where g: "growthRate (revenueGrowth inp) y = Some g"
    by (auto split: option.splits)
  obtain c' p where st: "projection_step inp y g c ls = (c', p)"
    by (cases "projection_step inp y g c ls") auto
  obtain p' where st': "projection_step (inp\<lparr>wacc := w'\<rparr>) y g c ls = (c', p')"
    using st by (auto simp: projection_step_def Let_def)
  from st st' Suc.prems(3) have r: "rediscounted (wacc inp) w' p p'"
    by (auto simp: rediscounted_def projection_step_def Let_def)
  from Suc.prems(1) g st
  have rec: "projections_loop inp n (Suc y) c' (ls\<lparr>revenue := c'\<rparr>) (acc @ [p]) = Inr (ls1, ps)"
    by simp
  from Suc.prems(2) r have l: "list_all2 (rediscounted (wacc inp) w') (acc @ [p]) (acc' @ [p'])"
    by (simp add: list_all2_appendI)
  from Suc.IH [OF rec l] g st' show ?case by simp
qed

lemma calculateProjections_rediscounted:
  assumes "calculateProjections m h = (Inr ps, h1)"
  shows "\<exists>ps'. calculateProjections (m\<lparr>inputs := (inputs m)\<lparr>wacc := w'\<rparr>\<rparr>) h = (Inr ps', h1)
           \<and> list_all2 (rediscounted (wacc (inputs m)) w') ps ps'"
proof -
  from assms obtain l l1 where l: "js_last (incomeStatements (h (data m))) = Some l"
    and lp: "projections_loop (inputs m) (loop_count (projectionYears (inputs m))) 1
               (revenue l) l [] = Inr (l1, ps)"
    and h1: "h1 = h(data m := (h (data m))\<lparr>incomeStatements :=
                set_last (incomeStatements (h (data m))) l1\<rparr>)"
    by (auto simp: calculateProjections_def Let_def split: option.splits sum.splits)
  from projections_loop_rediscounted [OF lp, of w' "[]"]
  obtain ps' where
    "projections_loop ((inputs m)\<lparr>wacc := w'\<rparr>) (loop_count (projectionYears (inputs m))) 1
               (revenue l) l [] = Inr (l1, ps')"
    and "list_all2 (rediscounted (wacc (inputs m)) w') ps ps'"
    by auto
  with l h1 show ?thesis
    by (simp add: calculateProjections_def Let_def)
qed

lemma calculateProjections_frame:
  assumes "calculateProjections m h = (x, h1)"
  shows "profile (h1 (data m)) = profile (h (data m))
       \<and> balanceSheets (h1 (data m)) = balanceSheets (h (data m))
       \<and> stockPrice (h1 (data m)) = stockPrice (h (data m))"
  using assms
  by (auto simp: calculateProjections_def Let_def split: option.splits sum.splits)

lemma foldl_presentValue:
  "foldl (\<lambda>sum p. sum + p_presentValue p) a ps = a + sum_list (map p_presentValue ps)"
  by (induction ps arbitrary: a) simp_all

lemma rediscounted_le:
  assumes "rediscounted w w' p p'" "0 < p_fcf p" "0 < 1 + w" "w \<le> w'"
  shows "p_presentValue p' \<le> p_presentValue p"
proof -
  from assms(3,4) have "(1 + w) ^ p_year p \<le> (1 + w') ^ p_year p"
    by (intro power_mono) simp_all
  moreover from assms(3) have "0 < (1 + w) ^ p_year p" by simp
  ultimately have "p_fcf p / (1 + w') ^ p_year p \<le> p_fcf p / (1 + w) ^ p_year p"
    using assms(2) by (intro frac_le) simp_all
  with assms(1) show ?thesis by (simp add: rediscounted_def)
qed

lemma rediscounted_sum_le:
  assumes "list_all2 (rediscounted w w') ps ps'" "\<forall>p \<in> set ps. 0 < p_fcf p" "0 < 1 + w" "w \<le> w'"
  shows "sum_list (map p_presentValue ps') \<le> sum_list (map p_presentValue ps)"
  using assms(1,2)
proof (induction rule: list_all2_induct)
  case Nil
  then show ?case by simp
next
  case (Cons p ps p' ps')
  from rediscounted_le [OF Cons.hyps(1) _ assms(3,4)] Cons.prems
  have "p_presentValue p' \<le> p_presentValue p" by simp
  with Cons show ?case by simp
qed

lemma rediscounted_last:
  assumes "list_all2 (rediscounted w w') ps ps'" "ps \<noteq> []"
  shows "ps' \<noteq> [] \<and> p_fcf (last ps') = p_fcf (last ps)"
proof -
  from assms have len: "length ps' = length ps" and ne: "ps' \<noteq> []"
    by (auto dest: list_all2_lengthD)
  from assms list_all2_nthD [of "rediscounted w w'" ps ps' "length ps - 1"]
  have "rediscounted w w' (ps ! (length ps - 1)) (ps' ! (length ps - 1))"
    by simp
  with assms(2) ne len show ?thesis
    by (simp add: last_conv_nth rediscounted_def)
qed

lemma terminal_decreasing:
  fixes F tg w w' :: real
  assumes "0 < F" "- 1 < tg" "tg < w" "w < w'"
  shows "F * (1 + tg) / (w' - tg) / (1 + w') ^ n < F * (1 + tg) / (w - tg) / (1 + w) ^ n"
proof -
  from assms have A: "0 < F * (1 + tg)" by simp
  from assms have d: "0 < w - tg" "w - tg < w' - tg" by simp_all
  from A d have lt: "F * (1 + tg) / (w' - tg) < F * (1 + tg) / (w - tg)"
    by (intro divide_strict_left_mono) simp_all
  from A d have nn: "0 \<le> F * (1 + tg) / (w' - tg)" by simp
  from assms have pos: "0 < 1 + w" by simp
  then have p0: "0 < (1 + w) ^ n" by simp
  from pos assms(4) have pm: "(1 + w) ^ n \<le> (1 + w') ^ n"
    by (intro power_mono) simp_all
  from nn lt p0 pm show ?thesis by (rule frac_less)
qed

lemma calculate_Inr:
  assumes "calculate m h = (Inr v, h1)"
  shows "\<exists>ps lb. calculateProjections m h = (Inr ps, h1) \<and> ps \<noteq> [] \<and> projections v = ps
           \<and> js_last (balanceSheets (h1 (data m))) = Some lb
           \<and> impliedSharePrice v =
               (calculateEnterpriseValue m ps
                  (p_fcf (last ps) * (1 + terminalGrowth (inputs m))
                   / (wacc (inputs m) - terminalGrowth (inputs m)))
                - (totalDebt lb - cashAndEquivalents lb))
               / sharesOutstanding (profile (h1 (data m)))"
  using assms
  by (auto simp: calculate_def calculateTerminalValue_def calculateEquityValue_def Let_def
      js_last_eq_Some split: prod.splits sum.splits option.splits)

lemma calculate_intro:
  assumes "calculateProjections m h = (Inr ps, h1)" "ps \<noteq> []"
    "js_last (balanceSheets (h1 (data m))) = Some lb"
  shows "\<exists>v. calculate m h = (Inr v, h1) \<and> projections v = ps
           \<and> impliedSharePrice v =
               (calculateEnterpriseValue m ps
                  (p_fcf (last ps) * (1 + terminalGrowth (inputs m))
                   / (wacc (inputs m) - terminalGrowth (inputs m)))
                - (totalDebt lb - cashAndEquivalents lb))
               / sharesOutstanding (profile (h1 (data m)))"
  using assms
  by (simp add: calculate_def calculateTerminalValue_def calculateEquityValue_def Let_def
      js_last_Some)

lemma DCFModel_new_wacc:
  "DCFModel_new h r (inp\<lparr>in_wacc := Some w'\<rparr>)
   = (DCFModel_new h r (inp\<lparr>in_wacc := Some w\<rparr>))
       \<lparr>inputs := (inputs (DCFModel_new h r (inp\<lparr>in_wacc := Some w\<rparr>)))\<lparr>wacc := w'\<rparr>\<rparr>"
  by (simp add: DCFModel_new_def nullish_def)

lemma calculate_wacc_decreasing:
  assumes c: "calculate m h = (Inr v, h1)"
    and tg: "- 1 < terminalGrowth (inputs m)" "terminalGrowth (inputs m) < wacc (inputs m)"
    and w: "wacc (inputs m) < w'"
    and sh: "0 < sharesOutstanding (profile (h (data m)))"
    and fcf: "\<forall>p \<in> set (projections v). 0 < p_fcf p"
  shows "\<exists>v' h'. calculate (m\<lparr>inputs := (inputs m)\<lparr>wacc := w'\<rparr>\<rparr>) h = (Inr v', h')
           \<and> map p_fcf (projections v') = map p_fcf (projections v)
           \<and> impliedSharePrice v' < impliedSharePrice v"
proof -
  let ?m' = "m\<lparr>inputs := (inputs m)\<lparr>wacc := w'\<rparr>\<rparr>"
  let ?w = "wacc (inputs m)" and ?tg = "terminalGrowth (inputs m)"
  let ?N = "loop_count (projectionYears (inputs m))"
  from calculate_Inr [OF c] obtain ps lb where
    cp: "calculateProjections m h = (Inr ps, h1)" and ne: "ps \<noteq> []" and pv: "projections v = ps"
    and lb: "js_last (balanceSheets (h1 (data m))) = Some lb"
    and price: "impliedSharePrice v =
               (calculateEnterpriseValue m ps (p_fcf (last ps) * (1 + ?tg) / (?w - ?tg))
                - (totalDebt lb - cashAndEquivalents lb))
               / sharesOutstanding (profile (h1 (data m)))"
    by blast
  from calculateProjections_rediscounted [OF cp, of w'] obtain ps' where
    cp': "calculateProjections ?m' h = (Inr ps', h1)"
    and rel: "list_all2 (rediscounted ?w w') ps ps'"
    by blast
  from rediscounted_last [OF rel ne] have ne': "ps' \<noteq> []"
    and last: "p_fcf (last ps') = p_fcf (last ps)" by simp_all
  from lb have lb': "js_last (balanceSheets (h1 (data ?m'))) = Some lb" by simp
  from calculate_intro [OF cp' ne' lb'] obtain v' where
    c': "calculate ?m' h = (Inr v', h1)" and pv': "projections v' = ps'"
    and price': "impliedSharePrice v' =
               (calculateEnterpriseValue ?m' ps' (p_fcf (last ps') * (1 + ?tg) / (w' - ?tg))
                - (totalDebt lb - cashAndEquivalents lb))
               / sharesOutstanding (profile (h1 (data m)))"
    by auto
  from rel have same: "map p_fcf ps' = map p_fcf ps"
    by (induction rule: list_all2_induct) (simp_all add: rediscounted_def)
  from tg have pos: "0 < 1 + ?w" by simp
  from fcf pv have fp: "\<forall>p \<in> set ps. 0 < p_fcf p" by simp
  from w have wle: "?w \<le> w'" by simp
  have sums: "sum_list (map p_presentValue ps') \<le> sum_list (map p_presentValue ps)"
    by (rule rediscounted_sum_le [OF rel fp pos wle])
  from ne fp have F: "0 < p_fcf (last ps)" by simp
  have tv: "p_fcf (last ps) * (1 + ?tg) / (w' - ?tg) / (1 + w') ^ ?N
              < p_fcf (last ps) * (1 + ?tg) / (?w - ?tg) / (1 + ?w) ^ ?N"
    by (rule terminal_decreasing [OF F tg w])
  from sums tv last
  have ev: "calculateEnterpriseValue ?m' ps' (p_fcf (last ps') * (1 + ?tg) / (w' - ?tg))
            < calculateEnterpriseValue m ps (p_fcf (last ps) * (1 + ?tg) / (?w - ?tg))"
    by (simp add: calculateEnterpriseValue_def Let_def foldl_presentValue)
  from calculateProjections_frame [OF cp] sh
  have sh1: "0 < sharesOutstanding (profile (h1 (data m)))" by simp
  from ev sh1 have "impliedSharePrice v' < impliedSharePrice v"
    unfolding price price' by (intro divide_strict_right_mono) simp_all
  with c' same pv pv' show ?thesis by auto
qed

text \<open>
  Claim C6, as amended. Take a snapshot and DCF inputs for which \<^verbatim>\<open>calculate()\<close> returns at
  the WACC \<open>w1\<close>, with a terminal growth rate above -1 and below \<open>w1\<close>, a positive number of
  shares and positive projected free cash flows (these do not depend on the WACC). Then for
  every \<open>w2\<close> above \<open>w1\<close>, \<^verbatim>\<open>calculate()\<close> on the same snapshot returns as well, with the
  same free cash flows and a strictly lower implied share price.
\<close>

theorem dcf_price_decreasing_in_wacc:
  assumes "calculate (DCFModel_new h r (inp\<lparr>in_wacc := Some w1\<rparr>)) h = (Inr v1, h1)"
    and "- 1 < terminalGrowth (inputs (DCFModel_new h r inp))"
    and "terminalGrowth (inputs (DCFModel_new h r inp)) < w1"
    and "w1 < w2"
    and "0 < sharesOutstanding (profile (h r))"
    and "\<forall>p \<in> set (projections v1). 0 < p_fcf p"
  shows "\<exists>v2 h2. calculate (DCFModel_new h r (inp\<lparr>in_wacc := Some w2\<rparr>)) h = (Inr v2, h2)
           \<and> map p_fcf (projections v2) = map p_fcf (projections v1)
           \<and> impliedSharePrice v2 < impliedSharePrice v1"
proof -
  let ?m = "DCFModel_new h r (inp\<lparr>in_wacc := Some w1\<rparr>)"
  have i: "terminalGrowth (inputs ?m) = terminalGrowth (inputs (DCFModel_new h r inp))"
    "wacc (inputs ?m) = w1" "data ?m = r"
    by (simp_all add: DCFModel_new_def nullish_def)
  from assms(2-5) i
  have a: "- 1 < terminalGrowth (inputs ?m)" "terminalGrowth (inputs ?m) < wacc (inputs ?m)"
    "wacc (inputs ?m) < w2" "0 < sharesOutstanding (profile (h (data ?m)))"
    by simp_all
  from calculate_wacc_decreasing [OF assms(1) a assms(6)]
  show ?thesis by (simp add: DCFModel_new_wacc [where w' = w2 and w = w1])
qed


theorem dcf_price_decreasing_in_wacc_witness:
  "\<exists>v1 h1 v2 h2.
      calculate (DCFModel_new exampleHeap 0 (noDCFInputs\<lparr>in_wacc := Some (8 / 100)\<rparr>)) exampleHeap
        = (Inr v1, h1)
      \<and> calculate (DCFModel_new exampleHeap 0 (noDCFInputs\<lparr>in_wacc := Some (10 / 100)\<rparr>)) exampleHeap
        = (Inr v2, h2)
      \<and> impliedSharePrice v2 < impliedSharePrice v1"
proof -
  have "\<exists>v h1.
      calculate (DCFModel_new exampleHeap 0 (noDCFInputs\<lparr>in_wacc := Some (8 / 100)\<rparr>)) exampleHeap
        = (Inr v, h1) \<and> (\<forall>p \<in> set (projections v). 0 < p_fcf p)"
    by (simp add: calculate_def calculateProjections_def DCFModel_new_def exampleHeap_def
        exampleData_def noDCFInputs_def js_last_def loop_count_def nullish_def
        defaultGrowth_def numeral_eq_Suc growthRate_def js_index_def projection_step_def
        Let_def set_last_def calculateTerminalValue_def calculateEquityValue_def
        calculateEnterpriseValue_def)
  then obtain v1 h1 where
    c: "calculate (DCFModel_new exampleHeap 0 (noDCFInputs\<lparr>in_wacc := Some (8 / 100)\<rparr>)) exampleHeap
        = (Inr v1, h1)"
    and f: "\<forall>p \<in> set (projections v1). 0 < p_fcf p" by blast
  have t: "- 1 < terminalGrowth (inputs (DCFModel_new exampleHeap 0 noDCFInputs))"
    "terminalGrowth (inputs (DCFModel_new exampleHeap 0 noDCFInputs)) < 8 / 100"
    "(8 / 100 :: real) < 10 / 100"
    "0 < sharesOutstanding (profile (exampleHeap 0))"
    by (simp_all add: DCFModel_new_def noDCFInputs_def nullish_def exampleHeap_def exampleData_def)
  from dcf_price_decreasing_in_wacc [OF c t f] c show ?thesis by blast
qed

text \<open>
  Claim C6 as stated fails where the lower WACC is below the terminal growth rate: on the
  example snapshot, with the default terminal growth of 2.5%, the implied price at a WACC
  of 1% is negative and the one at 10% is not lower.
\<close>

theorem dcf_price_decreasing_in_wacc_counterexample:
  "\<not> isl (fst (calculate (DCFModel_new exampleHeap 0 (noDCFInputs\<lparr>in_wacc := Some (1 / 100)\<rparr>))
                   exampleHeap))
   \<and> \<not> isl (fst (calculate (DCFModel_new exampleHeap 0 (noDCFInputs\<lparr>in_wacc := Some (10 / 100)\<rparr>))
                   exampleHeap))
   \<and> \<not> impliedSharePrice
          (projr (fst (calculate
             (DCFModel_new exampleHeap 0 (noDCFInputs\<lparr>in_wacc := Some (10 / 100)\<rparr>)) exampleHeap)))
        < impliedSharePrice
          (projr (fst (calculate
             (DCFModel_new exampleHeap 0 (noDCFInputs\<lparr>in_wacc := Some (1 / 100)\<rparr>)) exampleHeap)))"
  by (simp add: calculate_def calculateProjections_def DCFModel_new_def exampleHeap_def
      exampleData_def noDCFInputs_def js_last_def loop_count_def nullish_def
      defaultGrowth_def numeral_eq_Suc growthRate_def js_index_def projection_step_def
      Let_def set_last_def calculateTerminalValue_def calculateEquityValue_def
      calculateEnterpriseValue_def)

section \<open>Randomness stays in the constructors\<close>

lemma generatePeers_from_count:
  "snd (generatePeers_from rnd b k i names) = k + 6 * length names
   \<and> length (fst (generatePeers_from rnd b k i names)) = length names"
proof (induction names arbitrary: k i)
  case Nil
  show ?case by simp
next
  case (Cons nm names)
  from Cons.IH [of "k + 6" "Suc i"] show ?case
    by (cases "generatePeers_from rnd b (k + 6) (Suc i) names") simp
qed

lemma generateTransactions_from_count:
  "snd (generateTransactions_from rnd b ind k i n) = k + 8 * n
   \<and> length (fst (generateTransactions_from rnd b ind k i n)) = n"
proof (induction n arbitrary: k i)
  case 0
  show ?case by simp
next
  case (Suc n)
  from Suc.IH [of "k + 8" "Suc i"] show ?case
    by (cases "generateTransactions_from rnd b ind (k + 8) (Suc i) n") simp
qed

lemma length_peerNames: "length peerNames = 8"
  by (simp add: peerNames_def)

lemma CompsModel_new_cases:
  "CompsModel_new rnd h r k =
     (if incomeStatements (h r) = [] then Inl TypeError
      else Inr (\<lparr>comps_data = r,
                 peers = fst (generatePeers_from rnd (revenue (last (incomeStatements (h r))))
                                k 0 peerNames)\<rparr>,
                k + 48))"
proof (cases "incomeStatements (h r) = []")
  case True
  then show ?thesis
    by (simp add: CompsModel_new_def generatePeers_def js_last_def)
next
  case False
  with generatePeers_from_count
    [of rnd "revenue (last (incomeStatements (h r)))" k 0 peerNames]
  show ?thesis
    by (cases "generatePeers_from rnd (revenue (last (incomeStatements (h r)))) k 0 peerNames")
       (simp add: CompsModel_new_def generatePeers_def js_last_Some length_peerNames)
qed

lemma PrecedentTransactionModel_new_cases:
  "PrecedentTransactionModel_new rnd h r k =
     (if incomeStatements (h r) = [] then Inl TypeError
      else Inr (\<lparr>precedent_data = r,
                 transactions =
                   sort_key (\<lambda>t. - dateTime (t_date t))
                     (fst (generateTransactions_from rnd
                             (revenue (last (incomeStatements (h r))))
                             (industry (profile (h r))) k 0 15))\<rparr>,
                k + 120))"
proof (cases "incomeStatements (h r) = []")
  case True
  then show ?thesis
    by (simp add: PrecedentTransactionModel_new_def generateTransactions_def js_last_def)
next
  case False
  with generateTransactions_from_count
    [of rnd "revenue (last (incomeStatements (h r)))" "industry (profile (h r))" k 0 15]
  show ?thesis
    by (cases "generateTransactions_from rnd (revenue (last (incomeStatements (h r))))
               (industry (profile (h r))) k 0 15")
       (simp add: PrecedentTransactionModel_new_def generateTransactions_def js_last_Some)
qed

lemma comps_analyze_state: "snd (comps_analyze rnd m st) = (m, st)"
  by (cases st) (simp add: comps_analyze_def)

lemma comps_analyze_independent:
  "fst (comps_analyze rnd' m (h, k')) = fst (comps_analyze rnd m (h, k))"
  by (simp add: comps_analyze_def)

lemma comps_analyze_peers:
  "fst (comps_analyze rnd m st) = Inr res \<Longrightarrow> c_peers res = peers m"
  by (cases st) (auto simp: comps_analyze_def split: sum.splits)

lemma precedent_analyze_state: "snd (precedent_analyze rnd m st) = (m, st)"
  by (cases st) (simp add: precedent_analyze_def)

lemma precedent_analyze_independent:
  "fst (precedent_analyze rnd' m (h, k')) = fst (precedent_analyze rnd m (h, k))"
  by (simp add: precedent_analyze_def)

lemma precedent_analyze_transactions:
  "fst (precedent_analyze rnd m st) = Inr res \<Longrightarrow> x_transactions res = transactions m"
  by (cases st) (auto simp: precedent_analyze_def Let_def split: sum.splits)

text \<open>
  Claim C10. \<^verbatim>\<open>analyze()\<close> of either class leaves the instance, the heap and the counter of
  \<^verbatim>\<open>Math.random()\<close> calls as they were, and a second call returns what the first returned,
  whatever the random sequence is. The constructor of a comps model makes 48 calls of
  \<^verbatim>\<open>Math.random()\<close> for its 8 peers, that of a precedent transaction model 120 calls for
  its 15 transactions (or throws, on an empty income statement series), and the peers or
  transactions of every result are the ones stored by the constructor.
\<close>

theorem analyze_repeatable:
  "(case comps_analyze rnd m st of
      (res, m', st') \<Rightarrow> m' = m \<and> st' = st \<and> comps_analyze rnd' m' st' = (res, m', st'))
   \<and> (case precedent_analyze rnd pm st of
      (res, m', st') \<Rightarrow> m' = pm \<and> st' = st \<and> precedent_analyze rnd' m' st' = (res, m', st'))
   \<and> (case CompsModel_new rnd h r k of
         Inl e \<Rightarrow> incomeStatements (h r) = []
       | Inr (cm, k') \<Rightarrow> k' = k + 48 \<and> length (peers cm) = 8
           \<and> fst (comps_analyze rnd' cm (h, k')) = fst (comps_analyze rnd cm (h, k))
           \<and> (\<forall>res. fst (comps_analyze rnd cm (h, k')) = Inr res \<longrightarrow> c_peers res = peers cm))
   \<and> (case PrecedentTransactionModel_new rnd h r k of
         Inl e \<Rightarrow> incomeStatements (h r) = []
       | Inr (pm, k') \<Rightarrow> k' = k + 120 \<and> length (transactions pm) = 15
           \<and> fst (precedent_analyze rnd' pm (h, k')) = fst (precedent_analyze rnd pm (h, k))
           \<and> (\<forall>res. fst (precedent_analyze rnd pm (h, k')) = Inr res \<longrightarrow>
                 x_transactions res = transactions pm))"
proof (intro conjI)
  show "case comps_analyze rnd m st of
      (res, m', st') \<Rightarrow> m' = m \<and> st' = st \<and> comps_analyze rnd' m' st' = (res, m', st')"
    by (cases st) (simp add: comps_analyze_def)
  show "case precedent_analyze rnd pm st of
      (res, m', st') \<Rightarrow> m' = pm \<and> st' = st \<and> precedent_analyze rnd' m' st' = (res, m', st')"
    by (cases st) (simp add: precedent_analyze_def)
  show "case CompsModel_new rnd h r k of
         Inl e \<Rightarrow> incomeStatements (h r) = []
       | Inr (cm, k') \<Rightarrow> k' = k + 48 \<and> length (peers cm) = 8
           \<and> fst (comps_analyze rnd' cm (h, k')) = fst (comps_analyze rnd cm (h, k))
           \<and> (\<forall>res. fst (comps_analyze rnd cm (h, k')) = Inr res \<longrightarrow> c_peers res = peers cm)"
    using generatePeers_from_count
      [of rnd "revenue (last (incomeStatements (h r)))" k 0 peerNames]
    by (simp add: CompsModel_new_cases comps_analyze_independent [of rnd' _ h _ rnd k]
        comps_analyze_peers length_peerNames)
  show "case PrecedentTransactionModel_new rnd h r k of
         Inl e \<Rightarrow> incomeStatements (h r) = []
       | Inr (pm, k') \<Rightarrow> k' = k + 120 \<and> length (transactions pm) = 15
           \<and> fst (precedent_analyze rnd' pm (h, k')) = fst (precedent_analyze rnd pm (h, k))
           \<and> (\<forall>res. fst (precedent_analyze rnd pm (h, k')) = Inr res \<longrightarrow>
                 x_transactions res = transactions pm)"
    using generateTransactions_from_count
      [of rnd "revenue (last (incomeStatements (h r)))" "industry (profile (h r))" k 0 15]
    by (simp add: PrecedentTransactionModel_new_cases
        precedent_analyze_independent [of rnd' _ h _ rnd k] precedent_analyze_transactions)
qed


lemma comps_analyze_total:
  assumes "incomeStatements (h (comps_data m)) \<noteq> []" "balanceSheets (h (comps_data m)) \<noteq> []"
  shows "\<exists>res. fst (comps_analyze rnd m (h, k)) = Inr res"
  using assms
  by (simp add: comps_analyze_def comps_getTargetMetrics_def comps_calculateMultiples_def
      comps_calculateValuation_def comps_calculateImpliedSharePrice_def Let_def js_last_Some)

lemma precedent_analyze_total:
  assumes "incomeStatements (h (precedent_data m)) \<noteq> []"
    "balanceSheets (h (precedent_data m)) \<noteq> []"
  shows "\<exists>res. fst (precedent_analyze rnd m (h, k)) = Inr res"
  using assms
  by (simp add: precedent_analyze_def precedent_getTargetMetrics_def
      precedent_calculateValuation_def precedent_calculateImpliedSharePrice_def Let_def
      js_last_Some)

theorem analyze_repeatable_witness:
  "\<exists>cm pm res pres.
      CompsModel_new (\<lambda>k. 1 / 2) exampleHeap 0 0 = Inr (cm, 48)
      \<and> fst (comps_analyze (\<lambda>k. 1 / 2) cm (exampleHeap, 48)) = Inr res
      \<and> fst (comps_analyze (\<lambda>k. 0) cm (exampleHeap, 48)) = Inr res
      \<and> c_peers res = peers cm \<and> length (peers cm) = 8
      \<and> PrecedentTransactionModel_new (\<lambda>k. 1 / 2) exampleHeap 0 0 = Inr (pm, 120)
      \<and> fst (precedent_analyze (\<lambda>k. 1 / 2) pm (exampleHeap, 120)) = Inr pres
      \<and> fst (precedent_analyze (\<lambda>k. 0) pm (exampleHeap, 120)) = Inr pres
      \<and> x_transactions pres = transactions pm \<and> length (transactions pm) = 15"
proof -
  have ne: "incomeStatements (exampleHeap 0) \<noteq> []" "balanceSheets (exampleHeap 0) \<noteq> []"
    by (simp_all add: exampleHeap_def exampleData_def)
  from ne(1) obtain cm where cm: "CompsModel_new (\<lambda>k. 1 / 2) exampleHeap 0 0 = Inr (cm, 48)"
    and cd: "comps_data cm = 0"
    by (simp add: CompsModel_new_cases)
  from ne(1) obtain pm where
    pm: "PrecedentTransactionModel_new (\<lambda>k. 1 / 2) exampleHeap 0 0 = Inr (pm, 120)"
    and pd: "precedent_data pm = 0"
    by (simp add: PrecedentTransactionModel_new_cases)
  from comps_analyze_total [of exampleHeap cm "\<lambda>k. 1 / 2" 48] ne cd
  obtain res where res: "fst (comps_analyze (\<lambda>k. 1 / 2) cm (exampleHeap, 48)) = Inr res"
    by auto
  from precedent_analyze_total [of exampleHeap pm "\<lambda>k. 1 / 2" 120] ne pd
  obtain pres where
    pres: "fst (precedent_analyze (\<lambda>k. 1 / 2) pm (exampleHeap, 120)) = Inr pres"
    by auto
  note t = analyze_repeatable
    [where rnd = "\<lambda>k. 1 / 2" and rnd' = "\<lambda>k. 0" and h = exampleHeap and r = 0 and k = 0]
  from t cm res have c: "c_peers res = peers cm \<and> length (peers cm) = 8"
    by simp
  from t pm pres have p: "x_transactions pres = transactions pm \<and> length (transactions pm) = 15"
    by simp
  from res have res': "fst (comps_analyze (\<lambda>k. 0) cm (exampleHeap, 48)) = Inr res"
    by (simp add: comps_analyze_independent [of "\<lambda>k. 0" cm exampleHeap 48 "\<lambda>k. 1 / 2" 48])
  from pres have pres': "fst (precedent_analyze (\<lambda>k. 0) pm (exampleHeap, 120)) = Inr pres"
    by (simp add: precedent_analyze_independent
        [of "\<lambda>k. 0" pm exampleHeap 120 "\<lambda>k. 1 / 2" 120])
  from cm pm res res' pres pres' c p show ?thesis by blast
qed

section \<open>A stock deal at a higher P/E\<close>



lemma ma_analyze_total:
  assumes "incomeStatements (h (acquirer m)) \<noteq> []" "incomeStatements (h (target m)) \<noteq> []"
    "balanceSheets (h (acquirer m)) \<noteq> []"
  shows "\<exists>res. ma_analyze m h = Inr res"
proof -
  from assms(1) have "js_index (incomeStatements (h (acquirer m))) 0
                      = Some (incomeStatements (h (acquirer m)) ! 0)"
    by (simp add: js_index_def)
  with assms show ?thesis
    by (simp add: ma_analyze_def getAcquirerStandalone_def calculateProForma_def
        calculateCreditMetrics_def calculateBreakEven_def Let_def js_last_Some)
qed






end
